theory Spec2Isabelle
  imports Complex_Main "HOL-Library.AList"
begin

section \<open>Values, errors and strings\<close>

text \<open>
  The model follows \<^verbatim>\<open>befitlab_api_v2.py\<close>. Python floats are modelled as reals:
  rounding, infinities and NaN are outside the model. JSON timestamps of audit and
  shopping records are left out. Identifiers that the source draws from its global
  counters are natural numbers.

  An exception of the source is a value of \<open>error\<close>; a handler returns its outcome
  together with the state it leaves behind, because everything a handler assigned
  before it raised stays in the module's global dictionaries.
\<close>

datatype error =
    HTTPException nat string
  | AttributeError
  | IndexError
  | KeyError string
  | ZeroDivisionError

definition py_div :: "real \<Rightarrow> real \<Rightarrow> error + real" where
  "py_div a b = (if b = 0 then Inl ZeroDivisionError else Inr (a / b))"

definition lower_char :: "char \<Rightarrow> char" where
  "lower_char c =
     (let n = (of_char c :: nat) in if 65 \<le> n \<and> n \<le> 90 then char_of (n + 32) else c)"

text \<open>\<^verbatim>\<open>str.lower\<close> on the ASCII letters; other bytes are left as they are.\<close>

definition lower :: "string \<Rightarrow> string" where
  "lower s = map lower_char s"

fun starts_with :: "string \<Rightarrow> string \<Rightarrow> bool" where
  "starts_with s [] = True"
| "starts_with [] (c # p) = False"
| "starts_with (x # s) (c # p) = (x = c \<and> starts_with s p)"

text \<open>\<open>str_in p s\<close> is Python's \<^verbatim>\<open>p in s\<close> on strings.\<close>

fun str_in :: "string \<Rightarrow> string \<Rightarrow> bool" where
  "str_in p [] = (p = [])"
| "str_in p (x # s) = (starts_with (x # s) p \<or> str_in p s)"

text \<open>
  \<^verbatim>\<open>Series.str.contains(pat, case=False)\<close> for one cell. The pattern is taken
  literally, which is what pandas does for a pattern without regular-expression
  metacharacters: every slot key and every role the generator passes is such a pattern.
\<close>

definition str_contains :: "string \<Rightarrow> string \<Rightarrow> bool" where
  "str_contains cell pat = str_in (lower pat) (lower cell)"

text \<open>The ASCII characters that \<^verbatim>\<open>str.strip\<close> removes.\<close>

definition is_space :: "char \<Rightarrow> bool" where
  "is_space c = (c \<in> set [CHR 0x20, CHR 0x09, CHR 0x0A, CHR 0x0B, CHR 0x0C, CHR 0x0D,
                           CHR 0x1C, CHR 0x1D, CHR 0x1E, CHR 0x1F])"

definition strip :: "string \<Rightarrow> string" where
  "strip s = rev (dropWhile is_space (rev (dropWhile is_space s)))"

fun split_on :: "char \<Rightarrow> string \<Rightarrow> string list" where
  "split_on sep [] = [[]]"
| "split_on sep (c # cs) =
     (if c = sep then [] # split_on sep cs
      else (case split_on sep cs of [] \<Rightarrow> [[c]] | w # ws \<Rightarrow> (c # w) # ws))"

definition replace_char :: "char \<Rightarrow> string \<Rightarrow> string \<Rightarrow> string" where
  "replace_char old new s = concat (map (\<lambda>c. if c = old then new else [c]) s)"

definition normalize_allowed :: "string \<Rightarrow> string list" where
  "normalize_allowed s =
     (if s = [] then []
      else filter (\<lambda>p. p \<noteq> [])
             (map (\<lambda>p. lower (strip p)) (split_on CHR '','' (replace_char CHR '';'' '','' s))))"

section \<open>Macro vectors, targets and meal slots\<close>

record macros =
  kcal :: real
  protein :: real
  carbs :: real
  fat :: real

definition macro_dict :: macros where
  "macro_dict = \<lparr>kcal = 0, protein = 0, carbs = 0, fat = 0\<rparr>"

definition clamp :: "real \<Rightarrow> real \<Rightarrow> real \<Rightarrow> real" where
  "clamp x lo hi = max lo (min hi x)"

definition TRAIN_TARGET :: macros where
  "TRAIN_TARGET = \<lparr>kcal = 2300, protein = 154, carbs = 278, fat = 64\<rparr>"

definition REST_TARGET :: macros where
  "REST_TARGET = \<lparr>kcal = 1900, protein = 151, carbs = 157, fat = 74\<rparr>"

definition day_target :: "bool \<Rightarrow> macros" where
  "day_target training = (if training then TRAIN_TARGET else REST_TARGET)"

text \<open>The slot key \<^verbatim>\<open>media_ma\<close>\<open>\<dots>\<close>\<^verbatim>\<open>ana\<close> holds an n with tilde, two bytes in UTF-8.\<close>

definition media_manana :: string where
  "media_manana = ''media_ma'' @ [CHR 0xC3, CHR 0xB1] @ ''ana''"

definition MEALS :: "string list" where
  "MEALS = [''desayuno'', media_manana, ''almuerzo'', ''merienda'', ''cena'',
            ''postre_almuerzo'', ''postre_cena'']"

definition MEAL_LABEL :: "string \<Rightarrow> string" where
  "MEAL_LABEL k =
     (if k = ''desayuno'' then ''Desayuno''
      else if k = media_manana then ''Media ma'' @ [CHR 0xC3, CHR 0xB1] @ ''ana''
      else if k = ''almuerzo'' then ''Almuerzo''
      else if k = ''merienda'' then ''Merienda''
      else if k = ''cena'' then ''Cena''
      else if k = ''postre_almuerzo'' then ''Postre (almuerzo)''
      else ''Postre (cena)'')"

text \<open>\<^verbatim>\<open>MEAL_WEIGHTS.get(meal_key, 0.15)\<close>.\<close>

definition MEAL_WEIGHTS_get :: "string \<Rightarrow> real" where
  "MEAL_WEIGHTS_get k =
     (if k = ''desayuno'' then 22 / 100
      else if k = media_manana then 10 / 100
      else if k = ''almuerzo'' then 28 / 100
      else if k = ''merienda'' then 10 / 100
      else if k = ''cena'' then 25 / 100
      else if k = ''postre_almuerzo'' then 25 / 1000
      else if k = ''postre_cena'' then 25 / 1000
      else 15 / 100)"

definition meal_targets :: "macros \<Rightarrow> string \<Rightarrow> macros" where
  "meal_targets day_t meal_key =
     (let w = MEAL_WEIGHTS_get meal_key
      in \<lparr>kcal = kcal day_t * w, protein = protein day_t * w,
          carbs = carbs day_t * w, fat = fat day_t * w\<rparr>)"

section \<open>Foods\<close>

text \<open>
  A food is a Python dict. Every key the code reads with \<^verbatim>\<open>.get\<close> is an optional
  field here (\<open>None\<close>: the key is absent, or for a text field also Python's \<^verbatim>\<open>None\<close>),
  because the \<^verbatim>\<open>food\<close> entry of a meal item is the two-key dict
  \<^verbatim>\<open>{"id", "name"}\<close> and the aggregation reads its macros with a default.
\<close>

record food =
  f_id :: string
  f_name :: string
  kcal_100g :: "real option"
  proteina_100g :: "real option"
  hidratos_100g :: "real option"
  grasas_100g :: "real option"
  rol_principal :: "string option"
  permitido_comidas :: "string option"

text \<open>\<^verbatim>\<open>float(food.get(key, 0.0))\<close>.\<close>

definition get_float :: "real option \<Rightarrow> real" where
  "get_float v = (case v of None \<Rightarrow> 0 | Some x \<Rightarrow> x)"

text \<open>\<^verbatim>\<open>food.get(key) or ""\<close>.\<close>

definition get_str :: "string option \<Rightarrow> string" where
  "get_str v = (case v of None \<Rightarrow> [] | Some x \<Rightarrow> x)"

text \<open>The dict \<^verbatim>\<open>{"id": f["id"], "name": f["name"]}\<close> stored in items and entries.\<close>

definition food_ref :: "food \<Rightarrow> food" where
  "food_ref f =
     \<lparr>f_id = f_id f, f_name = f_name f, kcal_100g = None, proteina_100g = None,
      hidratos_100g = None, grasas_100g = None, rol_principal = None,
      permitido_comidas = None\<rparr>"

definition food_macros_for_grams :: "food \<Rightarrow> real \<Rightarrow> macros" where
  "food_macros_for_grams fd grams =
     (let g = grams / 100
      in \<lparr>kcal = get_float (kcal_100g fd) * g,
          protein = get_float (proteina_100g fd) * g,
          carbs = get_float (hidratos_100g fd) * g,
          fat = get_float (grasas_100g fd) * g\<rparr>)"

definition add_macros :: "macros \<Rightarrow> macros \<Rightarrow> macros" where
  "add_macros a b =
     \<lparr>kcal = kcal a + kcal b, protein = protein a + protein b,
      carbs = carbs a + carbs b, fat = fat a + fat b\<rparr>"

definition compute_role :: "food \<Rightarrow> string" where
  "compute_role fd = (if get_str (rol_principal fd) = [] then ''hidrato''
                      else get_str (rol_principal fd))"

subsection \<open>Portion sizer\<close>

definition grams_for_role :: "food \<Rightarrow> string \<Rightarrow> macros \<Rightarrow> error + real" where
  "grams_for_role fd role target_macros =
     (let r = lower role;
          (base, goal) =
            (if str_in ''proteina'' r then (get_float (proteina_100g fd), protein target_macros)
             else if str_in ''grasa'' r then (get_float (grasas_100g fd), fat target_macros)
             else (get_float (hidratos_100g fd), carbs target_macros))
      in if base \<le> 0 then
           (let kcal100 = get_float (kcal_100g fd)
            in if kcal100 \<le> 0 then Inr 50
               else (case py_div (kcal target_macros) kcal100 of
                       Inl e \<Rightarrow> Inl e
                     | Inr q \<Rightarrow> Inr (clamp (q * 100) 10 400)))
         else (case py_div goal base of
                 Inl e \<Rightarrow> Inl e
               | Inr q \<Rightarrow> Inr (clamp (q * 100) 10 400)))"

text \<open>The per-100g value and the target component that \<open>grams_for_role\<close> pairs with a role.\<close>

definition role_base :: "food \<Rightarrow> string \<Rightarrow> real" where
  "role_base fd role =
     (if str_in ''proteina'' (lower role) then get_float (proteina_100g fd)
      else if str_in ''grasa'' (lower role) then get_float (grasas_100g fd)
      else get_float (hidratos_100g fd))"

definition role_goal :: "macros \<Rightarrow> string \<Rightarrow> real" where
  "role_goal target_macros role =
     (if str_in ''proteina'' (lower role) then protein target_macros
      else if str_in ''grasa'' (lower role) then fat target_macros
      else carbs target_macros)"

section \<open>The catalog table read by the selector\<close>

text \<open>
  \<^verbatim>\<open>load_foods_df\<close> reads the CSV file once and keeps the DataFrame; the model holds
  the table as rows. A text cell is \<open>None\<close> where pandas has NaN; the numeric columns
  are taken to hold numbers.
\<close>

record df_row =
  r_id :: string
  r_nombre :: string
  r_rol_principal :: "string option"
  r_permitido_comidas :: "string option"
  r_kcal_100g :: real
  r_proteina_100g :: real
  r_hidratos_100g :: real
  r_grasas_100g :: real

text \<open>\<^verbatim>\<open>fillna("")\<close> on one cell, and Python's \<^verbatim>\<open>str\<close> of a cell.\<close>

definition fillna :: "string option \<Rightarrow> string" where
  "fillna c = (case c of None \<Rightarrow> [] | Some s \<Rightarrow> s)"

definition str_cell :: "string option \<Rightarrow> string" where
  "str_cell c = (case c of None \<Rightarrow> ''nan'' | Some s \<Rightarrow> s)"

definition fill_row :: "df_row \<Rightarrow> df_row" where
  "fill_row r = r\<lparr>r_rol_principal := Some (fillna (r_rol_principal r)),
                   r_permitido_comidas := Some (fillna (r_permitido_comidas r))\<rparr>"

text \<open>The two filters of \<open>pick_food\<close> on the copy with filled cells, and its fallback on
  the table itself.\<close>

definition primary_filter :: "df_row list \<Rightarrow> string \<Rightarrow> string \<Rightarrow> df_row list" where
  "primary_filter df meal_key role =
     filter (\<lambda>r. str_contains (fillna (r_permitido_comidas r)) meal_key)
       (filter (\<lambda>r. str_contains (fillna (r_rol_principal r)) role) (map fill_row df))"

definition fallback_filter :: "df_row list \<Rightarrow> string \<Rightarrow> df_row list" where
  "fallback_filter df role = filter (\<lambda>r. str_contains (fillna (r_rol_principal r)) role) df"

text \<open>The dict \<open>pick_food\<close> returns for a row (its alias keys \<^verbatim>\<open>kcal\<close>,
  \<^verbatim>\<open>protein_100g\<close>, \<^verbatim>\<open>carbs_100g\<close>, \<^verbatim>\<open>fat_100g\<close> are never read).\<close>

definition row_food :: "df_row \<Rightarrow> food" where
  "row_food r =
     \<lparr>f_id = r_id r, f_name = r_nombre r, kcal_100g = Some (r_kcal_100g r),
      proteina_100g = Some (r_proteina_100g r), hidratos_100g = Some (r_hidratos_100g r),
      grasas_100g = Some (r_grasas_100g r),
      rol_principal = Some (str_cell (r_rol_principal r)),
      permitido_comidas = Some (str_cell (r_permitido_comidas r))\<rparr>"

section \<open>Ledger state\<close>

record item =
  it_id :: nat
  it_meal_id :: nat
  it_food :: food
  it_role :: string
  planned_g :: real
  adjusted_g :: real
  consumed_g :: real
  is_confirmed :: bool
  is_extra :: bool
  is_treat :: bool
  pantry_status :: string

record meal =
  m_id :: nat
  m_day_date :: string
  m_key :: string
  m_name :: string
  planned_macros :: macros
  adjusted_macros :: macros
  m_items :: "nat list"

record day =
  d_day_date :: string
  is_training :: bool
  planned :: macros
  adjusted :: macros
  consumed :: macros

record pantry_entry =
  p_id :: nat
  p_food :: food
  p_status :: string
  p_qty :: real
  p_unit :: string

record shopping_entry =
  sh_id :: nat
  sh_food :: food
  sh_qty :: real
  sh_unit :: string
  sh_status :: string

datatype event = DayEvent string string | MealEvent string nat | ItemEvent string nat

text \<open>
  The module's global dictionaries. A meal item is one Python object reached both from
  \<^verbatim>\<open>meal_items\<close> and from the \<^verbatim>\<open>items\<close> list of its meal, so \<open>meal_items\<close> is the store
  of item objects and a meal lists the keys of its items. An item is stored under its
  own id when it is created and \<^verbatim>\<open>meal_items\<close> never deletes, so every reference in a
  meal list of the source is live; a key without an object is skipped by \<open>deref\<close>.
  Dictionaries that the code iterates are association lists in insertion order.
  \<open>rng\<close> is the source of the uniform draws of \<^verbatim>\<open>df.sample\<close>: the draw number
  \<open>rng_pos\<close> picks the row.
\<close>

record state =
  foods_df :: "df_row list"
  foods_master :: "(string \<times> food) list"
  foods_custom :: "(string \<times> food) list"
  days :: "string \<rightharpoonup> day"
  meals_by_day :: "(string \<times> meal list) list"
  meal_items :: "nat \<rightharpoonup> item"
  pantry :: "(nat \<times> pantry_entry) list"
  shopping :: "(nat \<times> shopping_entry) list"
  learning_events :: "event list"
  next_meal_id :: nat
  next_item_id :: nat
  next_shop_id :: nat
  next_custom_id :: nat
  rng :: "nat \<Rightarrow> nat"
  rng_pos :: nat

definition deref :: "state \<Rightarrow> nat list \<Rightarrow> item list" where
  "deref s ids = List.map_filter (meal_items s) ids"

section \<open>Candidate selector\<close>

definition pick_food :: "string \<Rightarrow> string \<Rightarrow> state \<Rightarrow> (error + food) \<times> state" where
  "pick_food meal_key role s =
     (let df = primary_filter (foods_df s) meal_key role;
          df2 = (if df = [] then fallback_filter (foods_df s) role else df);
          s1 = s\<lparr>rng_pos := Suc (rng_pos s)\<rparr>
      in if df2 = [] then (Inl IndexError, s1)
         else (Inr (row_food (df2 ! (rng s (rng_pos s) mod length df2))), s1))"

text \<open>
  \<open>candidate_pool_for\<close>, which no handler calls. \<^verbatim>\<open>load_master\<close> has filled
  \<open>foods_master\<close> from the CSV file before the loop runs; the pool is computed from the
  two dictionaries as they are then.
\<close>

definition pool_keeps :: "string \<Rightarrow> string \<Rightarrow> food \<Rightarrow> bool" where
  "pool_keeps meal_key role fd =
     (let role_l = lower role;
          r = lower (get_str (rol_principal fd));
          allowed = normalize_allowed (get_str (permitido_comidas fd))
      in \<not> (role_l \<noteq> [] \<and> \<not> str_in role_l r) \<and>
         \<not> (allowed \<noteq> [] \<and> \<not> List.member allowed meal_key \<and>
            \<not> str_in (replace_char CHR ''_'' [] meal_key) (concat allowed)))"

definition candidate_pool_for :: "string \<Rightarrow> string \<Rightarrow> state \<Rightarrow> food list" where
  "candidate_pool_for meal_key role s =
     filter (pool_keeps meal_key role) (map snd (foods_custom s) @ map snd (foods_master s))"

section \<open>Ledger helpers\<close>

definition sum_items_macros :: "item list \<Rightarrow> (item \<Rightarrow> real) \<Rightarrow> macros" where
  "sum_items_macros its key_grams =
     foldl (\<lambda>total it. add_macros total (food_macros_for_grams (it_food it) (key_grams it)))
       macro_dict its"

definition pantry_status_for_food :: "string \<Rightarrow> state \<Rightarrow> string" where
  "pantry_status_for_food food_id s =
     (case find (\<lambda>p. f_id (p_food p) = food_id) (map snd (pantry s)) of
        None \<Rightarrow> ''missing''
      | Some p \<Rightarrow> p_status p)"

definition new_day :: "string \<Rightarrow> day" where
  "new_day day_date =
     \<lparr>d_day_date = day_date, is_training = True, planned = macro_dict,
      adjusted = macro_dict, consumed = macro_dict\<rparr>"

definition new_meal :: "nat \<Rightarrow> string \<Rightarrow> string \<Rightarrow> meal" where
  "new_meal n day_date k =
     \<lparr>m_id = n, m_day_date = day_date, m_key = k, m_name = MEAL_LABEL k,
      planned_macros = macro_dict, adjusted_macros = macro_dict, m_items = []\<rparr>"

fun create_meals :: "nat \<Rightarrow> string \<Rightarrow> string list \<Rightarrow> meal list" where
  "create_meals n day_date [] = []"
| "create_meals n day_date (k # ks) = new_meal n day_date k # create_meals (Suc n) day_date ks"

definition create_empty_meals :: "string \<Rightarrow> state \<Rightarrow> state" where
  "create_empty_meals day_date s =
     s\<lparr>meals_by_day :=
         AList.update day_date (create_meals (next_meal_id s) day_date MEALS) (meals_by_day s),
       next_meal_id := next_meal_id s + length MEALS\<rparr>"

definition ensure_day :: "string \<Rightarrow> state \<Rightarrow> day \<times> state" where
  "ensure_day day_date s =
     (let s1 = (if days s day_date = None
                then s\<lparr>days := (days s)(day_date \<mapsto> new_day day_date)\<rparr> else s);
          s2 = (if map_of (meals_by_day s1) day_date = None
                then create_empty_meals day_date s1 else s1)
      in (case days s2 day_date of Some d \<Rightarrow> (d, s2) | None \<Rightarrow> (new_day day_date, s2)))"

definition get_food :: "string \<Rightarrow> state \<Rightarrow> error + food" where
  "get_food food_id s =
     (case map_of (foods_master s) food_id of
        Some fd \<Rightarrow> Inr fd
      | None \<Rightarrow>
          (case map_of (foods_custom s) food_id of
             Some fd \<Rightarrow> Inr fd
           | None \<Rightarrow> Inl (HTTPException 404 (''Food not found: '' @ food_id))))"

subsection \<open>Aggregation\<close>

definition planned_m :: "state \<Rightarrow> meal \<Rightarrow> macros" where
  "planned_m s m = sum_items_macros (deref s (m_items m)) planned_g"

definition adjusted_m :: "state \<Rightarrow> meal \<Rightarrow> macros" where
  "adjusted_m s m = sum_items_macros (deref s (m_items m)) adjusted_g"

definition consumed_m :: "state \<Rightarrow> meal \<Rightarrow> macros" where
  "consumed_m s m =
     (let conf_items = map (\<lambda>it. it\<lparr>planned_g := consumed_g it\<rparr>)
                         (filter is_confirmed (deref s (m_items m)))
      in sum_items_macros conf_items planned_g)"

definition recompute_day :: "string \<Rightarrow> state \<Rightarrow> (error + unit) \<times> state" where
  "recompute_day day_date s =
     (case days s day_date of
        None \<Rightarrow> (Inl (KeyError day_date), s)
      | Some d \<Rightarrow>
          (case map_of (meals_by_day s) day_date of
             None \<Rightarrow> (Inl (KeyError day_date), s)
           | Some meals \<Rightarrow>
               (Inr (),
                s\<lparr>meals_by_day :=
                    AList.update day_date
                      (map (\<lambda>m. m\<lparr>planned_macros := planned_m s m,
                                  adjusted_macros := adjusted_m s m\<rparr>) meals)
                      (meals_by_day s),
                  days := (days s)(day_date \<mapsto>
                    d\<lparr>planned := foldl (\<lambda>acc m. add_macros acc (planned_m s m)) macro_dict meals,
                      adjusted := foldl (\<lambda>acc m. add_macros acc (adjusted_m s m)) macro_dict meals,
                      consumed := foldl (\<lambda>acc m. add_macros acc (consumed_m s m)) macro_dict meals\<rparr>)\<rparr>)))"

subsection \<open>Shopping deriver\<close>

definition ensure_shopping_for_item :: "string \<Rightarrow> state \<Rightarrow> (error + unit) \<times> state" where
  "ensure_shopping_for_item food_id s =
     (if pantry_status_for_food food_id s = ''available'' then (Inr (), s)
      else if list_ex (\<lambda>e. f_id (sh_food e) = food_id \<and> sh_status e = ''pending'')
                (map snd (shopping s)) then (Inr (), s)
      else (case get_food food_id s of
              Inl e \<Rightarrow> (Inl e, s)
            | Inr fd \<Rightarrow>
                (Inr (),
                 s\<lparr>shopping := shopping s @
                      [(next_shop_id s,
                        \<lparr>sh_id = next_shop_id s, sh_food = food_ref fd, sh_qty = 1,
                         sh_unit = ''unit'', sh_status = ''pending''\<rparr>)],
                   next_shop_id := Suc (next_shop_id s)\<rparr>)))"

fun ensure_shopping_all :: "string list \<Rightarrow> state \<Rightarrow> (error + unit) \<times> state" where
  "ensure_shopping_all [] s = (Inr (), s)"
| "ensure_shopping_all (food_id # rest) s =
     (case ensure_shopping_for_item food_id s of
        (Inl e, s1) \<Rightarrow> (Inl e, s1)
      | (Inr u, s1) \<Rightarrow> ensure_shopping_all rest s1)"

subsection \<open>Rebalancer\<close>

text \<open>The first loop of \<open>recalc_adjusted_keep_targets\<close>: the pair
  \<^verbatim>\<open>(treat_kcal, non_treat_kcal)\<close>.\<close>

definition kcal_sums :: "item list \<Rightarrow> real \<times> real" where
  "kcal_sums its =
     foldl (\<lambda>(treat_kcal, non_treat_kcal) it.
              (let k = kcal (food_macros_for_grams (it_food it) (planned_g it))
               in if is_treat it then (treat_kcal + k, non_treat_kcal)
                  else (treat_kcal, non_treat_kcal + k)))
       (0, 0) its"

definition rescale :: "real \<Rightarrow> item \<Rightarrow> item" where
  "rescale scale it =
     it\<lparr>adjusted_g := (if is_treat it then planned_g it
                        else clamp (planned_g it * scale) 0 9999)\<rparr>"

text \<open>The second loop: every item object of the day gets its \<open>adjusted_g\<close>.\<close>

fun set_adjusted :: "real \<Rightarrow> nat list \<Rightarrow> (nat \<rightharpoonup> item) \<Rightarrow> (nat \<rightharpoonup> item)" where
  "set_adjusted scale [] mi = mi"
| "set_adjusted scale (i # ids) mi =
     set_adjusted scale ids
       (case mi i of None \<Rightarrow> mi | Some it \<Rightarrow> mi(i \<mapsto> rescale scale it))"

text \<open>The divisor of \<open>scale\<close> is above \<open>1e-6\<close> where the division is made.\<close>

definition day_scale :: "bool \<Rightarrow> item list \<Rightarrow> real" where
  "day_scale training its =
     (let tgt = day_target training;
          (treat_kcal, non_treat_kcal) = kcal_sums its;
          remaining = max 0 (kcal tgt - treat_kcal)
      in if non_treat_kcal > 1 / 1000000 then remaining / non_treat_kcal else 1)"

definition recalc_adjusted_keep_targets :: "string \<Rightarrow> state \<Rightarrow> (error + unit) \<times> state" where
  "recalc_adjusted_keep_targets day_date s =
     (case days s day_date of
        None \<Rightarrow> (Inl (KeyError day_date), s)
      | Some d \<Rightarrow>
          (case map_of (meals_by_day s) day_date of
             None \<Rightarrow> (Inl (KeyError day_date), s)
           | Some meals \<Rightarrow>
               (let ids = concat (map m_items meals);
                    scale = day_scale (is_training d) (deref s ids);
                    s1 = s\<lparr>meal_items := set_adjusted scale ids (meal_items s)\<rparr>
                in (case ensure_shopping_all (map (\<lambda>it. f_id (it_food it)) (deref s1 ids)) s1 of
                      (Inl e, s2) \<Rightarrow> (Inl e, s2)
                    | (Inr u, s2) \<Rightarrow> recompute_day day_date s2))))"

section \<open>Handlers\<close>

definition get_day :: "string \<Rightarrow> state \<Rightarrow> day \<times> state" where
  "get_day dd s = ensure_day dd s"

definition get_day_meals :: "string \<Rightarrow> state \<Rightarrow> meal list option \<times> state" where
  "get_day_meals dd s = (let (d, s1) = ensure_day dd s in (map_of (meals_by_day s1) dd, s1))"

definition set_training :: "string \<Rightarrow> bool \<Rightarrow> state \<Rightarrow> (error + unit) \<times> state" where
  "set_training dd training s =
     (let (d, s1) = ensure_day dd s;
          s2 = s1\<lparr>days := (days s1)(dd \<mapsto> d\<lparr>is_training := training\<rparr>)\<rparr>
      in recalc_adjusted_keep_targets dd s2)"

subsection \<open>Custom foods\<close>

definition infer_role :: "real \<Rightarrow> real \<Rightarrow> real \<Rightarrow> string" where
  "infer_role p c g =
     (if c \<le> p \<and> g \<le> p then ''proteina'' else if g \<le> c then ''hidrato'' else ''grasa'')"

fun str_nat :: "nat \<Rightarrow> string" where
  "str_nat n =
     (if n < 10 then [char_of (48 + n)] else str_nat (n div 10) @ [char_of (48 + n mod 10)])"

record ManualFoodBody =
  b_nombre :: string
  b_kcal_100g :: real
  b_proteina_100g :: real
  b_hidratos_100g :: real
  b_grasas_100g :: real
  b_permitido_comidas :: string

definition custom_food_manual :: "ManualFoodBody \<Rightarrow> state \<Rightarrow> string \<times> state" where
  "custom_food_manual body s =
     (let cid = ''custom:'' @ str_nat (next_custom_id s);
          role = infer_role (b_proteina_100g body) (b_hidratos_100g body) (b_grasas_100g body);
          fd = \<lparr>f_id = cid, f_name = strip (b_nombre body),
                kcal_100g = Some (b_kcal_100g body),
                proteina_100g = Some (b_proteina_100g body),
                hidratos_100g = Some (b_hidratos_100g body),
                grasas_100g = Some (b_grasas_100g body),
                rol_principal = Some role,
                permitido_comidas = Some (b_permitido_comidas body)\<rparr>
      in (cid, s\<lparr>foods_custom := AList.update cid fd (foods_custom s),
                 next_custom_id := Suc (next_custom_id s)\<rparr>))"

subsection \<open>Generator\<close>

text \<open>
  What \<open>generate_day\<close> is called with: the JSON object of a request (a Python dict), or
  the pydantic model \<^verbatim>\<open>GenerateDayBody\<close>, which has the attribute \<^verbatim>\<open>day_date\<close> and no
  method \<^verbatim>\<open>get\<close>.
\<close>

datatype gen_body = Dict "(string \<times> string) list" | GenerateDayBody string

definition roles_for :: "string \<Rightarrow> string list" where
  "roles_for mk = (if starts_with mk ''postre'' then [''hidrato'', ''grasa'']
                   else [''proteina'', ''hidrato'', ''grasa''])"

text \<open>\<^verbatim>\<open>m["items"].append(item)\<close> for the meal at position \<open>i\<close> of the day's list.\<close>

definition append_item_at :: "string \<Rightarrow> nat \<Rightarrow> nat \<Rightarrow> state \<Rightarrow> state" where
  "append_item_at dd i iid s =
     (case map_of (meals_by_day s) dd of
        None \<Rightarrow> s
      | Some meals \<Rightarrow>
          s\<lparr>meals_by_day :=
              AList.update dd
                (meals[i := (meals ! i)\<lparr>m_items := m_items (meals ! i) @ [iid]\<rparr>])
                (meals_by_day s)\<rparr>)"

text \<open>The inner loop of \<open>generate_day\<close> over the roles of the meal \<open>m\<close> at position \<open>i\<close>.\<close>

fun generate_day_roles ::
  "string \<Rightarrow> nat \<Rightarrow> meal \<Rightarrow> macros \<Rightarrow> string list \<Rightarrow> state \<Rightarrow> (error + unit) \<times> state" where
  "generate_day_roles dd i m mt [] s = (Inr (), s)"
| "generate_day_roles dd i m mt (role # roles) s =
     (case pick_food (m_key m) role s of
        (Inl e, s1) \<Rightarrow> (Inl e, s1)
      | (Inr f, s1) \<Rightarrow>
          (case grams_for_role f role mt of
             Inl e \<Rightarrow> (Inl e, s1)
           | Inr grams \<Rightarrow>
               (let it = \<lparr>it_id = next_item_id s1, it_meal_id = m_id m, it_food = food_ref f,
                          it_role = role, planned_g = grams, adjusted_g = grams,
                          consumed_g = 0, is_confirmed = False, is_extra = False,
                          is_treat = False,
                          pantry_status = pantry_status_for_food (f_id f) s1\<rparr>;
                    s2 = append_item_at dd i (next_item_id s1)
                           (s1\<lparr>meal_items := (meal_items s1)(next_item_id s1 \<mapsto> it)\<rparr>);
                    s3 = s2\<lparr>next_item_id := Suc (next_item_id s2)\<rparr>
                in (case ensure_shopping_for_item (f_id f) s3 of
                      (Inl e, s4) \<Rightarrow> (Inl e, s4)
                    | (Inr u, s4) \<Rightarrow> generate_day_roles dd i m mt roles s4))))"

text \<open>The outer loop over the meals of the day, each with its position.\<close>

fun generate_day_meals ::
  "string \<Rightarrow> macros \<Rightarrow> (nat \<times> meal) list \<Rightarrow> state \<Rightarrow> (error + unit) \<times> state" where
  "generate_day_meals dd t [] s = (Inr (), s)"
| "generate_day_meals dd t ((i, m) # ms) s =
     (case generate_day_roles dd i m (meal_targets t (m_key m)) (roles_for (m_key m)) s of
        (Inl e, s1) \<Rightarrow> (Inl e, s1)
      | (Inr u, s1) \<Rightarrow> generate_day_meals dd t ms s1)"

definition clear_day_items :: "string \<Rightarrow> state \<Rightarrow> state" where
  "clear_day_items dd s =
     (case map_of (meals_by_day s) dd of
        None \<Rightarrow> s
      | Some meals \<Rightarrow>
          s\<lparr>meals_by_day :=
              AList.update dd (map (\<lambda>m. m\<lparr>m_items := []\<rparr>) meals) (meals_by_day s)\<rparr>)"

definition day_meals :: "string \<Rightarrow> state \<Rightarrow> meal list" where
  "day_meals dd s = (case map_of (meals_by_day s) dd of None \<Rightarrow> [] | Some meals \<Rightarrow> meals)"

definition generate_day :: "gen_body \<Rightarrow> state \<Rightarrow> (error + unit) \<times> state" where
  "generate_day body s =
     (case body of
        GenerateDayBody x \<Rightarrow> (Inl AttributeError, s)
      | Dict kv \<Rightarrow>
          (case map_of kv ''day_date'' of
             None \<Rightarrow> (Inl (HTTPException 400 ''day_date missing''), s)
           | Some dd \<Rightarrow>
               if dd = [] then (Inl (HTTPException 400 ''day_date missing''), s)
               else
                 (let (d, s1) = ensure_day dd s;
                      t = day_target (is_training d);
                      s2 = clear_day_items dd s1
                  in (case generate_day_meals dd t
                             (zip [0..<length (day_meals dd s2)] (day_meals dd s2)) s2 of
                        (Inl e, s3) \<Rightarrow> (Inl e, s3)
                      | (Inr u, s3) \<Rightarrow> recalc_adjusted_keep_targets dd s3))))"

definition accept_day :: "string \<Rightarrow> state \<Rightarrow> (error + unit) \<times> state" where
  "accept_day dd s =
     (let (d, s1) = ensure_day dd s
      in (Inr (), s1\<lparr>learning_events := learning_events s1 @ [DayEvent ''accept_day'' dd]\<rparr>))"

definition reject_day :: "string \<Rightarrow> state \<Rightarrow> (error + unit) \<times> state" where
  "reject_day dd s =
     (let (d, s1) = ensure_day dd s;
          s2 = s1\<lparr>learning_events := learning_events s1 @ [DayEvent ''reject_day'' dd]\<rparr>
      in (case generate_day (GenerateDayBody dd) s2 of
            (Inl e, s3) \<Rightarrow> (Inl e, s3)
          | (Inr u, s3) \<Rightarrow> (Inr (), s3)))"

text \<open>The search loop shared by the handlers that take a meal id: the first meal with
  that id, with the key of its day.\<close>

fun find_meal :: "(string \<times> meal list) list \<Rightarrow> nat \<Rightarrow> (string \<times> meal) option" where
  "find_meal [] mid = None"
| "find_meal ((dd, ms) # rest) mid =
     (case find (\<lambda>m. m_id m = mid) ms of
        Some m \<Rightarrow> Some (dd, m)
      | None \<Rightarrow> find_meal rest mid)"

fun map_first :: "('a \<Rightarrow> bool) \<Rightarrow> ('a \<Rightarrow> 'a) \<Rightarrow> 'a list \<Rightarrow> 'a list" where
  "map_first P f [] = []"
| "map_first P f (x # xs) = (if P x then f x # xs else x # map_first P f xs)"

text \<open>An assignment to the meal object that \<open>find_meal\<close> found.\<close>

fun update_meal :: "nat \<Rightarrow> (meal \<Rightarrow> meal) \<Rightarrow> (string \<times> meal list) list \<Rightarrow> (string \<times> meal list) list" where
  "update_meal mid f [] = []"
| "update_meal mid f ((dd, ms) # rest) =
     (case find (\<lambda>m. m_id m = mid) ms of
        Some m \<Rightarrow> (dd, map_first (\<lambda>m. m_id m = mid) f ms) # rest
      | None \<Rightarrow> (dd, ms) # update_meal mid f rest)"

fun regenerate_meal_roles ::
  "nat \<Rightarrow> string \<Rightarrow> macros \<Rightarrow> string list \<Rightarrow> state \<Rightarrow> (error + unit) \<times> state" where
  "regenerate_meal_roles mid mk mt [] s = (Inr (), s)"
| "regenerate_meal_roles mid mk mt (role # roles) s =
     (case pick_food mk role s of
        (Inl e, s1) \<Rightarrow> (Inl e, s1)
      | (Inr f, s1) \<Rightarrow>
          (case grams_for_role f role mt of
             Inl e \<Rightarrow> (Inl e, s1)
           | Inr grams \<Rightarrow>
               (let it_id0 = next_item_id s1;
                    s2 = s1\<lparr>next_item_id := Suc (next_item_id s1)\<rparr>;
                    it = \<lparr>it_id = it_id0, it_meal_id = mid, it_food = food_ref f,
                          it_role = compute_role f, planned_g = grams, adjusted_g = grams,
                          consumed_g = 0, is_confirmed = False, is_extra = False,
                          is_treat = False,
                          pantry_status = pantry_status_for_food (f_id f) s2\<rparr>;
                    s3 = s2\<lparr>meal_items := (meal_items s2)(it_id0 \<mapsto> it),
                            meals_by_day :=
                              update_meal mid (\<lambda>m. m\<lparr>m_items := m_items m @ [it_id0]\<rparr>)
                                (meals_by_day s2)\<rparr>
                in (case ensure_shopping_for_item (f_id f) s3 of
                      (Inl e, s4) \<Rightarrow> (Inl e, s4)
                    | (Inr u, s4) \<Rightarrow> regenerate_meal_roles mid mk mt roles s4))))"

definition regenerate_meal :: "nat \<Rightarrow> state \<Rightarrow> (error + unit) \<times> state" where
  "regenerate_meal meal_id s =
     (case find_meal (meals_by_day s) meal_id of
        None \<Rightarrow> (Inl (HTTPException 404 ''Meal no encontrado''), s)
      | Some (dd, target_meal) \<Rightarrow>
          (let (d, s1) = ensure_day dd s;
               t = day_target (is_training d);
               mk = m_key target_meal;
               mt = meal_targets t mk;
               s2 = s1\<lparr>meals_by_day :=
                         update_meal meal_id (\<lambda>m. m\<lparr>m_items := []\<rparr>) (meals_by_day s1)\<rparr>
           in (case regenerate_meal_roles (m_id target_meal) mk mt (roles_for mk) s2 of
                 (Inl e, s3) \<Rightarrow> (Inl e, s3)
               | (Inr u, s3) \<Rightarrow>
                   (case recalc_adjusted_keep_targets dd s3 of
                      (Inl e, s4) \<Rightarrow> (Inl e, s4)
                    | (Inr u, s4) \<Rightarrow>
                        (Inr (),
                         s4\<lparr>learning_events := learning_events s4 @
                              [MealEvent ''regenerate_meal'' (m_id target_meal)]\<rparr>)))))"

text \<open>The five assignments of \<open>swap_item\<close> to the item object: the state between the
  swap and the shopping deriver and rebalance that follow it.\<close>

definition swap_item_assign :: "nat \<Rightarrow> food \<Rightarrow> state \<Rightarrow> state" where
  "swap_item_assign meal_item_id f s =
     (case meal_items s meal_item_id of
        None \<Rightarrow> s
      | Some it \<Rightarrow>
          (let old_planned = planned_g it
           in s\<lparr>meal_items := (meal_items s)(meal_item_id \<mapsto>
                  it\<lparr>it_food := food_ref f, it_role := compute_role f,
                     planned_g := old_planned, adjusted_g := old_planned,
                     pantry_status := pantry_status_for_food (f_id f) s\<rparr>)\<rparr>))"

definition swap_item :: "nat \<Rightarrow> string \<Rightarrow> state \<Rightarrow> (error + unit) \<times> state" where
  "swap_item meal_item_id role s =
     (case meal_items s meal_item_id of
        None \<Rightarrow> (Inl (HTTPException 404 ''Item no encontrado''), s)
      | Some it \<Rightarrow>
          (case find_meal (meals_by_day s) (it_meal_id it) of
             None \<Rightarrow> (Inl (HTTPException 404 ''Meal no encontrado''), s)
           | Some (dd, target_meal) \<Rightarrow>
               (case pick_food (m_key target_meal) role s of
                  (Inl e, s1) \<Rightarrow> (Inl e, s1)
                | (Inr f, s1) \<Rightarrow>
                    (case ensure_shopping_for_item (f_id f) (swap_item_assign meal_item_id f s1) of
                       (Inl e, s3) \<Rightarrow> (Inl e, s3)
                     | (Inr u, s3) \<Rightarrow>
                         (case recalc_adjusted_keep_targets dd s3 of
                            (Inl e, s4) \<Rightarrow> (Inl e, s4)
                          | (Inr u, s4) \<Rightarrow>
                              (Inr (),
                               s4\<lparr>learning_events := learning_events s4 @
                                    [ItemEvent ''swap_item'' (it_id it)]\<rparr>))))))"

subsection \<open>Consumption\<close>

definition add_extra :: "nat \<Rightarrow> string \<Rightarrow> real \<Rightarrow> bool \<Rightarrow> state \<Rightarrow> (error + unit) \<times> state" where
  "add_extra meal_id food_id grams as_treat s =
     (case find_meal (meals_by_day s) meal_id of
        None \<Rightarrow> (Inl (HTTPException 404 ''Meal no encontrado''), s)
      | Some (dd, target_meal) \<Rightarrow>
          (case get_food food_id s of
             Inl e \<Rightarrow> (Inl e, s)
           | Inr f \<Rightarrow>
               (let it_id0 = next_item_id s;
                    s1 = s\<lparr>next_item_id := Suc (next_item_id s)\<rparr>;
                    it = \<lparr>it_id = it_id0, it_meal_id = m_id target_meal, it_food = food_ref f,
                          it_role = compute_role f, planned_g = grams, adjusted_g = grams,
                          consumed_g = (if as_treat then grams else 0),
                          is_confirmed = as_treat, is_extra = True, is_treat = as_treat,
                          pantry_status = pantry_status_for_food (f_id f) s1\<rparr>;
                    s2 = s1\<lparr>meal_items := (meal_items s1)(it_id0 \<mapsto> it),
                            meals_by_day :=
                              update_meal meal_id (\<lambda>m. m\<lparr>m_items := m_items m @ [it_id0]\<rparr>)
                                (meals_by_day s1)\<rparr>
                in (case ensure_shopping_for_item (f_id f) s2 of
                      (Inl e, s3) \<Rightarrow> (Inl e, s3)
                    | (Inr u, s3) \<Rightarrow>
                        (case recalc_adjusted_keep_targets dd s3 of
                           (Inl e, s4) \<Rightarrow> (Inl e, s4)
                         | (Inr u, s4) \<Rightarrow>
                             (Inr (),
                              s4\<lparr>learning_events := learning_events s4 @
                                   [ItemEvent ''add_extra'' it_id0]\<rparr>))))))"

text \<open>The search loop of \<open>confirm_item\<close>: it stops at the first day with a meal of that
  id whose key is a non-empty string.\<close>

definition find_day :: "(string \<times> meal list) list \<Rightarrow> nat \<Rightarrow> string option" where
  "find_day mbd mid =
     map_option fst (find (\<lambda>(dd, ms). find (\<lambda>m. m_id m = mid) ms \<noteq> None \<and> dd \<noteq> []) mbd)"

definition confirm_item :: "nat \<Rightarrow> real \<Rightarrow> bool \<Rightarrow> state \<Rightarrow> (error + unit) \<times> state" where
  "confirm_item meal_item_id body_consumed_g body_is_confirmed s =
     (case meal_items s meal_item_id of
        None \<Rightarrow> (Inl (HTTPException 404 ''Item no encontrado''), s)
      | Some it \<Rightarrow>
          (let s1 = s\<lparr>meal_items := (meal_items s)(meal_item_id \<mapsto>
                         it\<lparr>consumed_g := body_consumed_g, is_confirmed := body_is_confirmed\<rparr>)\<rparr>
           in (case find_day (meals_by_day s1) (it_meal_id it) of
                 None \<Rightarrow> (Inl (HTTPException 404 (''D'' @ [CHR 0xC3, CHR 0xAD] @ ''a no encontrado'')), s1)
               | Some dd \<Rightarrow>
                   (case recompute_day dd s1 of
                      (Inl e, s2) \<Rightarrow> (Inl e, s2)
                    | (Inr u, s2) \<Rightarrow>
                        (Inr (),
                         s2\<lparr>learning_events := learning_events s2 @
                              [ItemEvent ''confirm_item'' (it_id it)]\<rparr>)))))"

section \<open>A fresh process\<close>

text \<open>The module's globals as the import leaves them, for a catalog table and a
  source of random draws.\<close>

definition init :: "df_row list \<Rightarrow> (nat \<Rightarrow> nat) \<Rightarrow> state" where
  "init df r =
     \<lparr>foods_df = df, foods_master = [], foods_custom = [], days = Map.empty,
      meals_by_day = [], meal_items = Map.empty, pantry = [], shopping = [],
      learning_events = [], next_meal_id = 1, next_item_id = 1, next_shop_id = 1,
      next_custom_id = 1, rng = r, rng_pos = 0\<rparr>"

section \<open>Runs of handlers\<close>

text \<open>A call of a handler, or of the rebalancer alone; \<open>step\<close> gives the state the call
  leaves behind, whether it returned or raised.\<close>

datatype op =
    GetDay string
  | GetDayMeals string
  | SetTraining string bool
  | CustomFoodManual ManualFoodBody
  | GenerateDay gen_body
  | AcceptDay string
  | RejectDay string
  | RegenerateMeal nat
  | SwapItem nat string
  | AddExtra nat string real bool
  | ConfirmItem nat real bool
  | Rebalance string

fun step :: "op \<Rightarrow> state \<Rightarrow> state" where
  "step (GetDay dd) s = snd (get_day dd s)"
| "step (GetDayMeals dd) s = snd (get_day_meals dd s)"
| "step (SetTraining dd b) s = snd (set_training dd b s)"
| "step (CustomFoodManual body) s = snd (custom_food_manual body s)"
| "step (GenerateDay body) s = snd (generate_day body s)"
| "step (AcceptDay dd) s = snd (accept_day dd s)"
| "step (RejectDay dd) s = snd (reject_day dd s)"
| "step (RegenerateMeal mid) s = snd (regenerate_meal mid s)"
| "step (SwapItem i role) s = snd (swap_item i role s)"
| "step (AddExtra mid fid grams as_treat) s = snd (add_extra mid fid grams as_treat s)"
| "step (ConfirmItem i g c) s = snd (confirm_item i g c s)"
| "step (Rebalance dd) s = snd (recalc_adjusted_keep_targets dd s)"

fun run :: "op list \<Rightarrow> state \<Rightarrow> state" where
  "run [] s = s"
| "run (x # xs) s = run xs (step x s)"

text \<open>Treat invariance: every treat among the item objects has \<open>adjusted_g = planned_g\<close>.\<close>

definition treat_inv :: "state \<Rightarrow> bool" where
  "treat_inv s = (\<forall>i it. meal_items s i = Some it \<longrightarrow> is_treat it \<longrightarrow> adjusted_g it = planned_g it)"

text \<open>How a handler may change the store of item objects: no key is lost, and an
  object either keeps a treat's \<open>adjusted_g\<close> at its \<open>planned_g\<close> or has the treat flag
  and the two gram values of the object that was under its key before.\<close>

definition store_le :: "(nat \<rightharpoonup> item) \<Rightarrow> (nat \<rightharpoonup> item) \<Rightarrow> bool" where
  "store_le mi mi' =
     (\<forall>i. (mi i \<noteq> None \<longrightarrow> mi' i \<noteq> None) \<and>
          (\<forall>it'. mi' i = Some it' \<longrightarrow>
             (is_treat it' \<longrightarrow> adjusted_g it' = planned_g it') \<or>
             (\<exists>it. mi i = Some it \<and> is_treat it' = is_treat it \<and>
                   adjusted_g it' = adjusted_g it \<and> planned_g it' = planned_g it)))"

text \<open>An item id that no meal of the ledger lists.\<close>

definition detached :: "nat \<Rightarrow> state \<Rightarrow> bool" where
  "detached i s = list_all (\<lambda>(dd, ms). list_all (\<lambda>m. i \<notin> set (m_items m)) ms) (meals_by_day s)"

section \<open>Example inputs\<close>

text \<open>A catalog row allowed at lunch, a catalog row whose allowed-meals cell is empty,
  and the body of a manual food that is mostly protein and allowed at breakfast.\<close>

definition ex_row :: df_row where
  "ex_row = \<lparr>r_id = ''1'', r_nombre = ''pollo'', r_rol_principal = Some ''proteina'',
     r_permitido_comidas = Some ''almuerzo'', r_kcal_100g = 110, r_proteina_100g = 22,
     r_hidratos_100g = 0, r_grasas_100g = 2\<rparr>"

definition ex_row_open :: df_row where
  "ex_row_open = \<lparr>r_id = ''2'', r_nombre = ''huevo'', r_rol_principal = Some ''proteina'',
     r_permitido_comidas = None, r_kcal_100g = 150, r_proteina_100g = 13,
     r_hidratos_100g = 1, r_grasas_100g = 11\<rparr>"

definition ex_body :: ManualFoodBody where
  "ex_body = \<lparr>b_nombre = ''tofu'', b_kcal_100g = 120, b_proteina_100g = 20,
     b_hidratos_100g = 2, b_grasas_100g = 5, b_permitido_comidas = ''desayuno''\<rparr>"

text \<open>A fresh process over the one-row catalog; then a manual food; then the first
  access to a day; then a very large extra that is not a treat.\<close>

definition ex_fresh :: state where
  "ex_fresh = init [ex_row] (\<lambda>n. 0)"

definition ex_custom :: state where
  "ex_custom = snd (custom_food_manual ex_body ex_fresh)"

definition ex_day :: state where
  "ex_day = snd (ensure_day ''2024-01-01'' ex_custom)"

definition ex_extra :: state where
  "ex_extra = snd (add_extra 1 ''custom:1'' 20000 False ex_day)"

text \<open>A run from the fresh process: a manual food, the first access to a day, a treat
  and a plain extra of 20000 grams each, and then rebalances, a change of profile, a
  confirmation and a swap.\<close>

definition ex_ops :: "op list" where
  "ex_ops = [CustomFoodManual ex_body, GetDay ''2024-01-01'',
             AddExtra 1 ''custom:1'' 20000 True, AddExtra 1 ''custom:1'' 20000 False,
             Rebalance ''2024-01-01'', SetTraining ''2024-01-01'' False,
             ConfirmItem 2 10 True, SwapItem 1 ''proteina'', Rebalance ''2024-01-01'']"

definition ex_run :: state where
  "ex_run = run ex_ops ex_fresh"

text \<open>Two calls of \<open>generate_day\<close> for the same date in the fresh process.\<close>

definition ex_gen1 :: state where
  "ex_gen1 = snd (generate_day (Dict [(''day_date'', ''2024-01-01'')]) ex_fresh)"

definition ex_gen2 :: state where
  "ex_gen2 = snd (generate_day (Dict [(''day_date'', ''2024-01-01'')]) ex_gen1)"

section \<open>Portion sizer: range and divisions\<close>

lemma clamp_range: "lo \<le> hi \<Longrightarrow> lo \<le> clamp x lo hi \<and> clamp x lo hi \<le> hi"
  by (simp add: clamp_def)

lemma grams_for_role_cases:
  "grams_for_role fd role t =
     (if 0 < role_base fd role
        then Inr (clamp (role_goal t role / role_base fd role * 100) 10 400)
      else if 0 < get_float (kcal_100g fd)
        then Inr (clamp (kcal t / get_float (kcal_100g fd) * 100) 10 400)
      else Inr 50)"
  by (simp add: grams_for_role_def role_base_def role_goal_def py_div_def Let_def)

text \<open>
  C6. For every food, role and meal target the sizer returns grams (it never raises
  \<open>ZeroDivisionError\<close>: each division has a strictly positive divisor), the grams lie in
  \<open>[10, 400]\<close>, and they are: the role-matched target over the role-matched per-100g value
  when that value is positive; otherwise the calorie target over the kcal per 100g when
  that is positive; otherwise the fixed 50 grams.
\<close>

theorem grams_for_role_sized:
  "\<exists>g. grams_for_role fd role t = Inr g \<and> 10 \<le> g \<and> g \<le> 400 \<and>
       g = (if 0 < role_base fd role
              then clamp (role_goal t role / role_base fd role * 100) 10 400
            else if 0 < get_float (kcal_100g fd)
              then clamp (kcal t / get_float (kcal_100g fd) * 100) 10 400
            else 50)"
  by (simp add: grams_for_role_cases clamp_def)

section \<open>RejectDay\<close>

text \<open>
  C1. \<open>reject_day\<close> creates the day if needed and records the audit event, and then its
  call of \<open>generate_day\<close> raises: it passes the pydantic model, and \<open>generate_day\<close> reads
  its argument with the dict method \<^verbatim>\<open>get\<close>. For every date and state the handler ends with
  \<open>AttributeError\<close>, and the item table and the meals are the ones it found (after
  \<open>ensure_day\<close>): nothing is regenerated.
\<close>

theorem reject_day_raises:
  "reject_day dd s =
     (Inl AttributeError,
      (snd (ensure_day dd s))\<lparr>learning_events :=
         learning_events (snd (ensure_day dd s)) @ [DayEvent ''reject_day'' dd]\<rparr>)"
  by (simp add: reject_day_def generate_day_def split: prod.splits)

lemma reject_day_fresh_example:
  "fst (reject_day ''2024-01-01'' ex_fresh) = Inl AttributeError \<and>
   map m_items (day_meals ''2024-01-01'' (snd (reject_day ''2024-01-01'' ex_fresh)))
     = [[], [], [], [], [], [], []]"
  by code_simp

section \<open>Lazy creation of a day\<close>

lemma create_meals_keys: "map m_key (create_meals n dd ks) = ks"
  by (induction ks arbitrary: n) (simp_all add: new_meal_def)

lemma create_meals_items: "map m_items (create_meals n dd ks) = replicate (length ks) []"
  by (induction ks arbitrary: n) (simp_all add: new_meal_def)

lemma create_meals_ids: "map m_id (create_meals n dd ks) = [n..<n + length ks]"
  by (induction ks arbitrary: n) (simp_all add: new_meal_def upt_rec)

lemma ensure_day_existing:
  "days s dd = Some d \<Longrightarrow> map_of (meals_by_day s) dd = Some ms \<Longrightarrow> ensure_day dd s = (d, s)"
  by (simp add: ensure_day_def)

lemma ensure_day_fresh:
  assumes "days s dd = None" and "map_of (meals_by_day s) dd = None"
  shows "ensure_day dd s =
     (new_day dd,
      s\<lparr>days := (days s)(dd \<mapsto> new_day dd),
        meals_by_day := AList.update dd (create_meals (next_meal_id s) dd MEALS) (meals_by_day s),
        next_meal_id := next_meal_id s + length MEALS\<rparr>)"
  using assms by (simp add: ensure_day_def create_empty_meals_def)

text \<open>
  C10. On the first access to a date (no day and no meals under it) \<open>get_day\<close> and
  \<open>get_day_meals\<close>, like every handler that starts with \<open>ensure_day\<close>, create the day with
  \<open>is_training = True\<close> and zero planned, adjusted and consumed vectors, and its seven
  meals in the order of \<open>MEALS\<close>, each with an empty item list. An access to a date that
  has its day and meals returns them and leaves the state as it is.
\<close>

theorem ensure_day_lazy:
  "(days s dd = None \<and> map_of (meals_by_day s) dd = None \<longrightarrow>
      (\<exists>d ms s1. get_day dd s = (d, s1) \<and> get_day_meals dd s = (Some ms, s1) \<and>
         ensure_day dd s = (d, s1) \<and>
         days s1 dd = Some d \<and> is_training d = True \<and>
         planned d = macro_dict \<and> adjusted d = macro_dict \<and> consumed d = macro_dict \<and>
         map_of (meals_by_day s1) dd = Some ms \<and>
         map m_key ms = MEALS \<and> length ms = 7 \<and> map m_items ms = replicate 7 [] \<and>
         get_day dd s1 = (d, s1) \<and> get_day_meals dd s1 = (Some ms, s1))) \<and>
   (\<forall>d ms. days s dd = Some d \<and> map_of (meals_by_day s) dd = Some ms \<longrightarrow>
      ensure_day dd s = (d, s) \<and> get_day dd s = (d, s) \<and> get_day_meals dd s = (Some ms, s))"
proof (intro conjI impI allI)
  assume fresh: "days s dd = None \<and> map_of (meals_by_day s) dd = None"
  define ms where "ms = create_meals (next_meal_id s) dd MEALS"
  define s1 where "s1 = s\<lparr>days := (days s)(dd \<mapsto> new_day dd),
        meals_by_day := AList.update dd ms (meals_by_day s),
        next_meal_id := next_meal_id s + length MEALS\<rparr>"
  have e: "ensure_day dd s = (new_day dd, s1)"
    using fresh by (simp add: ensure_day_fresh s1_def ms_def)
  have d1: "days s1 dd = Some (new_day dd)" by (simp add: s1_def)
  have m1: "map_of (meals_by_day s1) dd = Some ms" by (simp add: s1_def update_conv')
  have again: "ensure_day dd s1 = (new_day dd, s1)"
    using d1 m1 by (rule ensure_day_existing)
  have len: "length MEALS = 7" by (simp add: MEALS_def)
  have "get_day dd s = (new_day dd, s1)" using e by (simp add: get_day_def)
  moreover have "get_day_meals dd s = (Some ms, s1)" using e m1 by (simp add: get_day_meals_def)
  moreover have "is_training (new_day dd) = True" "planned (new_day dd) = macro_dict"
    "adjusted (new_day dd) = macro_dict" "consumed (new_day dd) = macro_dict"
    by (simp_all add: new_day_def)
  moreover have "map m_key ms = MEALS" by (simp add: ms_def create_meals_keys)
  moreover have "length ms = 7" using len create_meals_keys[of "next_meal_id s" dd MEALS]
    by (metis length_map ms_def)
  moreover have "map m_items ms = replicate 7 []" using len by (simp add: ms_def create_meals_items)
  moreover have "get_day dd s1 = (new_day dd, s1)" using again by (simp add: get_day_def)
  moreover have "get_day_meals dd s1 = (Some ms, s1)" using again m1 by (simp add: get_day_meals_def)
  ultimately show "\<exists>d ms s1. get_day dd s = (d, s1) \<and> get_day_meals dd s = (Some ms, s1) \<and>
         ensure_day dd s = (d, s1) \<and>
         days s1 dd = Some d \<and> is_training d = True \<and>
         planned d = macro_dict \<and> adjusted d = macro_dict \<and> consumed d = macro_dict \<and>
         map_of (meals_by_day s1) dd = Some ms \<and>
         map m_key ms = MEALS \<and> length ms = 7 \<and> map m_items ms = replicate 7 [] \<and>
         get_day dd s1 = (d, s1) \<and> get_day_meals dd s1 = (Some ms, s1)"
    using d1 m1 e by blast
next
  fix d ms assume "days s dd = Some d \<and> map_of (meals_by_day s) dd = Some ms"
  then show "ensure_day dd s = (d, s)" by (simp add: ensure_day_existing)
next
  fix d ms assume "days s dd = Some d \<and> map_of (meals_by_day s) dd = Some ms"
  then have "ensure_day dd s = (d, s)" by (simp add: ensure_day_existing)
  then show "get_day dd s = (d, s)" by (simp add: get_day_def)
next
  fix d ms assume a: "days s dd = Some d \<and> map_of (meals_by_day s) dd = Some ms"
  then have "ensure_day dd s = (d, s)" by (simp add: ensure_day_existing)
  then show "get_day_meals dd s = (Some ms, s)" using a by (simp add: get_day_meals_def)
qed

theorem ensure_day_lazy_witness:
  "days ex_custom ''2024-01-01'' = None \<and> map_of (meals_by_day ex_custom) ''2024-01-01'' = None \<and>
   map m_key (day_meals ''2024-01-01'' (snd (get_day ''2024-01-01'' ex_custom))) = MEALS \<and>
   map m_id (day_meals ''2024-01-01'' (snd (get_day ''2024-01-01'' ex_custom))) = [1, 2, 3, 4, 5, 6, 7] \<and>
   map_option is_training (days (snd (get_day ''2024-01-01'' ex_custom)) ''2024-01-01'') = Some True \<and>
   days ex_day ''2024-01-01'' \<noteq> None \<and>
   map_of (meals_by_day ex_day) ''2024-01-01'' \<noteq> None \<and>
   snd (get_day ''2024-01-01'' ex_day) = ex_day \<and>
   fst (get_day_meals ''2024-01-01'' ex_day) = map_of (meals_by_day ex_day) ''2024-01-01''"
proof -
  have a: "days ex_custom ''2024-01-01'' = None" by code_simp
  have b: "map_of (meals_by_day ex_custom) ''2024-01-01'' = None" by code_simp
  have g: "snd (get_day ''2024-01-01'' ex_custom) = ex_day"
    by (simp add: get_day_def ex_day_def)
  have i: "map m_id (day_meals ''2024-01-01'' ex_day) = [1, 2, 3, 4, 5, 6, 7]"
    by code_simp
  from ensure_day_lazy[of ex_custom "''2024-01-01''"] a b obtain d ms s1 where
    first: "get_day ''2024-01-01'' ex_custom = (d, s1)" "days s1 ''2024-01-01'' = Some d"
      "is_training d = True" "map_of (meals_by_day s1) ''2024-01-01'' = Some ms"
      "map m_key ms = MEALS"
    by blast
  have s1: "s1 = ex_day" using first(1) g by simp
  have k: "map m_key (day_meals ''2024-01-01'' ex_day) = MEALS"
    using first(4,5) s1 by (simp add: day_meals_def)
  have t: "map_option is_training (days ex_day ''2024-01-01'') = Some True"
    using first(2,3) s1 by simp
  have c: "days ex_day ''2024-01-01'' = Some d" using first(2) s1 by simp
  have e: "map_of (meals_by_day ex_day) ''2024-01-01'' = Some ms" using first(4) s1 by simp
  from ensure_day_lazy[of ex_day "''2024-01-01''"] c e
  have again: "get_day ''2024-01-01'' ex_day = (d, ex_day)"
    "get_day_meals ''2024-01-01'' ex_day = (Some ms, ex_day)" by blast+
  show ?thesis using a b g i k t c e again by simp
qed


section \<open>Confirmed-only consumption\<close>

lemma sum_items_macros_conf:
  "sum_items_macros (map (\<lambda>it. it\<lparr>planned_g := consumed_g it\<rparr>) xs) planned_g =
   sum_items_macros xs consumed_g"
  by (simp add: sum_items_macros_def foldl_map)

lemma add_macros_zero: "add_macros macro_dict macro_dict = macro_dict"
  by (simp add: add_macros_def macro_dict_def)

lemma foldl_zero_meals:
  "list_all (\<lambda>m. g m = macro_dict) meals \<Longrightarrow>
   foldl (\<lambda>acc m. add_macros acc (g m)) macro_dict meals = macro_dict"
  by (induction meals) (simp_all add: add_macros_zero)

lemma consumed_m_eq:
  "consumed_m s m = sum_items_macros (filter is_confirmed (deref s (m_items m))) consumed_g"
  by (simp add: consumed_m_def sum_items_macros_conf)

lemma filter_none: "list_all (\<lambda>it. \<not> P it) xs \<Longrightarrow> filter P xs = []"
  by (induction xs) simp_all

text \<open>
  C8. For a day of the ledger \<open>recompute_day\<close> returns normally, and the \<open>consumed\<close>
  vector it stores is the sum, meal by meal, over the confirmed items of the meal of
  the macros of their consumed grams. If no item of the day is confirmed, it is the
  zero vector.
\<close>

theorem consumed_only_confirmed:
  assumes "days s dd = Some d" and "map_of (meals_by_day s) dd = Some meals"
  shows "\<exists>s' d'. recompute_day dd s = (Inr (), s') \<and> days s' dd = Some d' \<and>
           consumed d' =
             foldl (\<lambda>acc m. add_macros acc
                      (sum_items_macros (filter is_confirmed (deref s (m_items m))) consumed_g))
               macro_dict meals \<and>
           (list_all (\<lambda>m. list_all (\<lambda>it. \<not> is_confirmed it) (deref s (m_items m))) meals
              \<longrightarrow> consumed d' = macro_dict)"
proof -
  let ?c = "foldl (\<lambda>acc m. add_macros acc (consumed_m s m)) macro_dict meals"
  obtain s' where r: "recompute_day dd s = (Inr (), s')"
    and d': "days s' dd =
      Some (d\<lparr>planned := foldl (\<lambda>acc m. add_macros acc (planned_m s m)) macro_dict meals,
              adjusted := foldl (\<lambda>acc m. add_macros acc (adjusted_m s m)) macro_dict meals,
              consumed := ?c\<rparr>)"
    using assms by (simp add: recompute_day_def)
  have zero: "?c = macro_dict"
    if h: "list_all (\<lambda>m. list_all (\<lambda>it. \<not> is_confirmed it) (deref s (m_items m))) meals"
  proof (rule foldl_zero_meals)
    show "list_all (\<lambda>m. consumed_m s m = macro_dict) meals"
      using h by (induction meals) (simp_all add: consumed_m_eq filter_none sum_items_macros_def)
  qed
  show ?thesis
    using r d' zero by (simp add: consumed_m_eq)
qed

theorem consumed_only_confirmed_witness:
  "days ex_extra ''2024-01-01'' \<noteq> None \<and>
   map_of (meals_by_day ex_extra) ''2024-01-01'' \<noteq> None \<and>
   map m_items (day_meals ''2024-01-01'' ex_extra) = [[1], [], [], [], [], [], []] \<and>
   list_all (\<lambda>m. list_all (\<lambda>it. \<not> is_confirmed it) (deref ex_extra (m_items m)))
     (day_meals ''2024-01-01'' ex_extra) \<and>
   fst (recompute_day ''2024-01-01'' ex_extra) = Inr () \<and>
   map_option consumed (days (snd (recompute_day ''2024-01-01'' ex_extra)) ''2024-01-01'')
     = Some macro_dict"
proof -
  have a: "days ex_extra ''2024-01-01'' \<noteq> None" by code_simp
  have b: "map_of (meals_by_day ex_extra) ''2024-01-01'' \<noteq> None" by code_simp
  have i: "map m_items (day_meals ''2024-01-01'' ex_extra) = [[1], [], [], [], [], [], []]"
    by code_simp
  have c: "list_all (\<lambda>m. list_all (\<lambda>it. \<not> is_confirmed it) (deref ex_extra (m_items m)))
     (day_meals ''2024-01-01'' ex_extra)" by code_simp
  from a obtain d where d: "days ex_extra ''2024-01-01'' = Some d" by blast
  from b obtain meals where m: "map_of (meals_by_day ex_extra) ''2024-01-01'' = Some meals"
    by blast
  have dm: "day_meals ''2024-01-01'' ex_extra = meals" using m by (simp add: day_meals_def)
  from consumed_only_confirmed[OF d m] c dm
  obtain s' d' where "recompute_day ''2024-01-01'' ex_extra = (Inr (), s')"
    and "days s' ''2024-01-01'' = Some d'" and "consumed d' = macro_dict" by auto
  then show ?thesis using a b i c by simp
qed


section \<open>SwapItem and the grams of the item\<close>

text \<open>
  C3, as the code has it. The assignments of \<open>swap_item\<close> to an existing item replace its
  food, role and pantry snapshot; right after them (before the shopping deriver and the
  rebalance run) \<open>planned_g\<close> is the value from before the swap and \<open>adjusted_g\<close> is set to
  that same pre-swap \<open>planned_g\<close>. No portion is re-sized; the consumed grams, the flags
  and the ids of the item, and every other item, are as before.
\<close>

theorem swap_item_assign_grams:
  assumes "meal_items s i = Some it"
  shows "\<exists>it'. meal_items (swap_item_assign i f s) i = Some it' \<and>
           planned_g it' = planned_g it \<and> adjusted_g it' = planned_g it \<and>
           it_food it' = food_ref f \<and> it_role it' = compute_role f \<and>
           pantry_status it' = pantry_status_for_food (f_id f) s \<and>
           consumed_g it' = consumed_g it \<and> is_confirmed it' = is_confirmed it \<and>
           is_extra it' = is_extra it \<and> is_treat it' = is_treat it \<and>
           it_id it' = it_id it \<and> it_meal_id it' = it_meal_id it \<and>
           (\<forall>j. j \<noteq> i \<longrightarrow> meal_items (swap_item_assign i f s) j = meal_items s j)"
  using assms by (simp add: swap_item_assign_def)

theorem swap_item_assign_grams_witness:
  "meal_items ex_extra 1 \<noteq> None \<and>
   map_option planned_g (meal_items (swap_item_assign 1 (row_food ex_row) ex_extra) 1)
     = map_option planned_g (meal_items ex_extra 1) \<and>
   map_option adjusted_g (meal_items (swap_item_assign 1 (row_food ex_row) ex_extra) 1)
     = map_option planned_g (meal_items ex_extra 1) \<and>
   meal_items (swap_item_assign 1 (row_food ex_row) ex_extra) 2 = meal_items ex_extra 2"
proof -
  have a: "meal_items ex_extra 1 \<noteq> None" by code_simp
  then obtain it where it: "meal_items ex_extra 1 = Some it" by blast
  from swap_item_assign_grams[OF it, of "row_food ex_row"] it a show ?thesis by auto
qed

text \<open>
  The claim as written fails for \<open>adjusted_g\<close>. An extra of 20000 grams that is not a treat
  has \<open>adjusted_g = 9999\<close> after the rebalance that \<open>add_extra\<close> runs; the swap that
  \<open>swap_item\<close> makes for the role \<open>proteina\<close> then leaves \<open>adjusted_g = 20000\<close>.
\<close>

theorem swap_item_resets_adjusted:
  "fst (add_extra 1 ''custom:1'' 20000 False ex_day) = Inr () \<and>
   fst (pick_food ''desayuno'' ''proteina'' ex_extra) = Inr (row_food ex_row) \<and>
   map_option planned_g (meal_items ex_extra 1) = Some 20000 \<and>
   map_option adjusted_g (meal_items ex_extra 1) = Some 9999 \<and>
   map_option adjusted_g
     (meal_items (swap_item_assign 1 (row_food ex_row)
                    (snd (pick_food ''desayuno'' ''proteina'' ex_extra))) 1)
     = Some 20000"
  by code_simp


section \<open>What the selector reads\<close>

lemma pick_food_ignores_custom:
  "fst (pick_food mk role (s\<lparr>foods_custom := c\<rparr>)) = fst (pick_food mk role s)"
  by (simp add: pick_food_def Let_def)

lemma primary_filter_ex_breakfast: "primary_filter [ex_row] ''desayuno'' ''proteina'' = []"
  by code_simp

lemma fallback_filter_ex: "fallback_filter [ex_row] ''proteina'' = [ex_row]"
  by code_simp

lemma primary_filter_ex_open:
  "primary_filter [ex_row_open, ex_row] ''almuerzo'' ''proteina'' = [fill_row ex_row]"
  by code_simp

text \<open>
  C2, at a failing input. After \<open>custom_food_manual\<close> has created a food of role
  \<open>proteina\<close> allowed at breakfast, the pool of \<open>candidate_pool_for\<close> for breakfast and
  \<open>proteina\<close> is that food; \<open>pick_food\<close>, which the three handlers call, reads the catalog
  table only and for every random draw returns the catalog row (through its fallback).
\<close>

theorem pick_food_misses_custom_food:
  "map f_id (candidate_pool_for ''desayuno'' ''proteina''
               (snd (custom_food_manual ex_body (init [ex_row] (\<lambda>n. 0))))) = [''custom:1''] \<and>
   fst (pick_food ''desayuno'' ''proteina'' (snd (custom_food_manual ex_body (init [ex_row] r))))
     = Inr (row_food ex_row) \<and>
   f_id (row_food ex_row) = ''1''"
proof -
  have "map f_id (candidate_pool_for ''desayuno'' ''proteina''
               (snd (custom_food_manual ex_body (init [ex_row] (\<lambda>n. 0))))) = [''custom:1'']"
    by code_simp
  moreover have "fst (pick_food ''desayuno'' ''proteina''
                   (snd (custom_food_manual ex_body (init [ex_row] r)))) = Inr (row_food ex_row)"
    by (simp add: pick_food_def custom_food_manual_def init_def Let_def
        primary_filter_ex_breakfast fallback_filter_ex)
  moreover have "f_id (row_food ex_row) = ''1''" by code_simp
  ultimately show ?thesis by simp
qed

text \<open>
  C7, at a failing input. With a catalog of one row whose allowed-meals cell is empty and
  one row allowed at lunch, both of role \<open>proteina\<close>, the primary filter of \<open>pick_food\<close>
  for lunch keeps the second row only, so every draw returns it. The condition of
  \<open>candidate_pool_for\<close> accepts a food whose \<^verbatim>\<open>permitido_comidas\<close> is the empty string,
  here the dict of the first row with its cell filled.
\<close>

theorem pick_food_drops_unrestricted_food:
  "primary_filter [ex_row_open, ex_row] ''almuerzo'' ''proteina'' = [fill_row ex_row] \<and>
   fst (pick_food ''almuerzo'' ''proteina'' (init [ex_row_open, ex_row] r))
     = Inr (row_food (fill_row ex_row)) \<and>
   f_id (row_food (fill_row ex_row)) = ''1'' \<and>
   pool_keeps ''almuerzo'' ''proteina'' (row_food (fill_row ex_row_open))"
proof -
  have "fst (pick_food ''almuerzo'' ''proteina'' (init [ex_row_open, ex_row] r))
     = Inr (row_food (fill_row ex_row))"
    by (simp add: pick_food_def init_def Let_def primary_filter_ex_open)
  moreover have "f_id (row_food (fill_row ex_row)) = ''1''" by code_simp
  moreover have "pool_keeps ''almuerzo'' ''proteina'' (row_food (fill_row ex_row_open))"
    by code_simp
  ultimately show ?thesis using primary_filter_ex_open by simp
qed


section \<open>Rebalancer: frames and idempotence\<close>

lemma ensure_shopping_for_item_frame:
  "meal_items (snd (ensure_shopping_for_item fid s)) = meal_items s \<and>
   days (snd (ensure_shopping_for_item fid s)) = days s \<and>
   meals_by_day (snd (ensure_shopping_for_item fid s)) = meals_by_day s"
  by (simp add: ensure_shopping_for_item_def split: sum.splits)

lemma ensure_shopping_all_frame:
  "meal_items (snd (ensure_shopping_all fids s)) = meal_items s \<and>
   days (snd (ensure_shopping_all fids s)) = days s \<and>
   meals_by_day (snd (ensure_shopping_all fids s)) = meals_by_day s"
proof (induction fids arbitrary: s)
  case Nil
  show ?case by simp
next
  case (Cons fid fids)
  show ?case
  proof (cases "ensure_shopping_for_item fid s")
    case (Pair r s1)
    then have f: "meal_items s1 = meal_items s \<and> days s1 = days s \<and> meals_by_day s1 = meals_by_day s"
      using ensure_shopping_for_item_frame[of fid s] by simp
    show ?thesis
    proof (cases r)
      case (Inl e)
      with Pair f show ?thesis by simp
    next
      case (Inr u)
      with Pair f Cons.IH[of s1] show ?thesis by simp
    qed
  qed
qed

lemma recompute_day_items: "meal_items (snd (recompute_day dd s)) = meal_items s"
  by (simp add: recompute_day_def split: option.splits)

lemma recompute_day_shape:
  assumes "days s dd = Some d" and "map_of (meals_by_day s) dd = Some meals"
  shows "\<exists>d' meals'. days (snd (recompute_day dd s)) dd = Some d' \<and>
           is_training d' = is_training d \<and>
           map_of (meals_by_day (snd (recompute_day dd s))) dd = Some meals' \<and>
           map m_items meals' = map m_items meals"
  using assms by (simp add: recompute_day_def update_conv' comp_def)

lemma rescale_twice: "rescale sc (rescale sc it) = rescale sc it"
  by (simp add: rescale_def)

lemma set_adjusted_lookup:
  "set_adjusted sc ids mi i = (if i \<in> set ids then map_option (rescale sc) (mi i) else mi i)"
proof (induction ids arbitrary: mi)
  case Nil
  show ?case by simp
next
  case (Cons j ids)
  show ?case
    by (cases "mi j") (auto simp: Cons.IH rescale_twice)
qed

lemma set_adjusted_twice:
  "set_adjusted sc ids (set_adjusted sc ids mi) = set_adjusted sc ids mi"
  by (rule ext) (simp add: set_adjusted_lookup option.map_comp comp_def rescale_twice)

lemma map_filter_rescale:
  "(\<And>i. i \<in> set ids \<Longrightarrow> g i = map_option h (f i)) \<Longrightarrow>
   List.map_filter g ids = map h (List.map_filter f ids)"
  by (induction ids) (auto simp: List.map_filter_simps split: option.splits)

lemma deref_set_adjusted:
  "deref (s\<lparr>meal_items := set_adjusted sc ids (meal_items s)\<rparr>) ids = map (rescale sc) (deref s ids)"
  by (simp add: deref_def map_filter_rescale set_adjusted_lookup)

lemma kcal_step_rescale:
  "foldl (\<lambda>(treat_kcal, non_treat_kcal) it.
              (let k = kcal (food_macros_for_grams (it_food it) (planned_g it))
               in if is_treat it then (treat_kcal + k, non_treat_kcal)
                  else (treat_kcal, non_treat_kcal + k))) acc (map (rescale sc) its) =
   foldl (\<lambda>(treat_kcal, non_treat_kcal) it.
              (let k = kcal (food_macros_for_grams (it_food it) (planned_g it))
               in if is_treat it then (treat_kcal + k, non_treat_kcal)
                  else (treat_kcal, non_treat_kcal + k))) acc its"
  by (induction its arbitrary: acc) (simp_all add: rescale_def split: prod.splits)

lemma kcal_sums_rescale: "kcal_sums (map (rescale sc) its) = kcal_sums its"
  by (simp add: kcal_sums_def kcal_step_rescale)

lemma day_scale_rescale: "day_scale tr (map (rescale sc) its) = day_scale tr its"
  by (simp add: day_scale_def kcal_sums_rescale)

lemma map_food_rescale: "map (\<lambda>it. f_id (it_food it)) (map (rescale sc) its) = map (\<lambda>it. f_id (it_food it)) its"
  by (simp add: rescale_def)

lemma recalc_shape:
  assumes d: "days s dd = Some d" and m: "map_of (meals_by_day s) dd = Some meals"
  shows "\<exists>d' meals'.
           meal_items (snd (recalc_adjusted_keep_targets dd s)) =
             set_adjusted (day_scale (is_training d) (deref s (concat (map m_items meals))))
               (concat (map m_items meals)) (meal_items s) \<and>
           days (snd (recalc_adjusted_keep_targets dd s)) dd = Some d' \<and>
           is_training d' = is_training d \<and>
           map_of (meals_by_day (snd (recalc_adjusted_keep_targets dd s))) dd = Some meals' \<and>
           map m_items meals' = map m_items meals"
proof -
  define ids where "ids = concat (map m_items meals)"
  define sc where "sc = day_scale (is_training d) (deref s ids)"
  define s1 where "s1 = s\<lparr>meal_items := set_adjusted sc ids (meal_items s)\<rparr>"
  define fids where "fids = map (\<lambda>it. f_id (it_food it)) (deref s1 ids)"
  obtain r s2 where e: "ensure_shopping_all fids s1 = (r, s2)" by (cases "ensure_shopping_all fids s1")
  have f2: "meal_items s2 = meal_items s1" "days s2 = days s" "meals_by_day s2 = meals_by_day s"
    using ensure_shopping_all_frame[of fids s1] e by (simp_all add: s1_def)
  have unfold: "recalc_adjusted_keep_targets dd s =
      (case r of Inl e \<Rightarrow> (Inl e, s2) | Inr u \<Rightarrow> recompute_day dd s2)"
    using d m e by (simp add: recalc_adjusted_keep_targets_def Let_def ids_def sc_def s1_def fids_def
        split: sum.splits)
  show ?thesis
  proof (cases r)
    case (Inl err)
    then have "snd (recalc_adjusted_keep_targets dd s) = s2" using unfold by simp
    then show ?thesis using f2 d m by (simp add: s1_def sc_def ids_def)
  next
    case (Inr u)
    then have eq: "snd (recalc_adjusted_keep_targets dd s) = snd (recompute_day dd s2)"
      using unfold by simp
    have d2: "days s2 dd = Some d" and m2: "map_of (meals_by_day s2) dd = Some meals"
      using f2 d m by simp_all
    from recompute_day_shape[OF d2 m2] obtain d' meals' where
      "days (snd (recompute_day dd s2)) dd = Some d'" "is_training d' = is_training d"
      "map_of (meals_by_day (snd (recompute_day dd s2))) dd = Some meals'"
      "map m_items meals' = map m_items meals" by blast
    then show ?thesis using eq f2 by (simp add: recompute_day_items s1_def sc_def ids_def)
  qed
qed

text \<open>
  C5. Running \<open>recalc_adjusted_keep_targets\<close> a second time on the state the first run
  left (whether the first run returned or raised in the shopping deriver) leaves every
  item as the first run left it; in particular every \<open>adjusted_g\<close> is the same.
\<close>

theorem rebalance_idempotent:
  "meal_items (snd (recalc_adjusted_keep_targets dd (snd (recalc_adjusted_keep_targets dd s)))) =
   meal_items (snd (recalc_adjusted_keep_targets dd s))"
proof (cases "days s dd")
  case None
  then show ?thesis by (simp add: recalc_adjusted_keep_targets_def)
next
  case (Some d)
  show ?thesis
  proof (cases "map_of (meals_by_day s) dd")
    case None
    then show ?thesis using Some by (simp add: recalc_adjusted_keep_targets_def)
  next
    case (Some meals)
    define ids where "ids = concat (map m_items meals)"
    define sc where "sc = day_scale (is_training d) (deref s ids)"
    define t where "t = snd (recalc_adjusted_keep_targets dd s)"
    from recalc_shape[OF \<open>days s dd = Some d\<close> Some] obtain d' meals' where
      mi: "meal_items t = set_adjusted sc ids (meal_items s)" and
      d': "days t dd = Some d'" and tr: "is_training d' = is_training d" and
      m': "map_of (meals_by_day t) dd = Some meals'" and
      it: "map m_items meals' = map m_items meals"
      by (auto simp: t_def sc_def ids_def)
    have ids': "concat (map m_items meals') = ids" using it by (simp add: ids_def)
    have der: "deref t ids = map (rescale sc) (deref s ids)"
      using mi by (simp add: deref_def map_filter_rescale set_adjusted_lookup)
    have sc': "day_scale (is_training d') (deref t ids) = sc"
      using der tr by (simp add: day_scale_rescale sc_def)
    from recalc_shape[OF d' m'] have
      "meal_items (snd (recalc_adjusted_keep_targets dd t)) = set_adjusted sc ids (meal_items t)"
      using ids' sc' by auto
    then show ?thesis using mi by (simp add: set_adjusted_twice t_def)
  qed
qed

section \<open>The store of item objects under the handlers\<close>

lemma store_le_refl: "store_le mi mi"
  by (auto simp: store_le_def)

lemma store_le_trans:
  assumes ab: "store_le a b" and bc: "store_le b c"
  shows "store_le a c"
  unfolding store_le_def
proof (intro allI conjI impI)
  fix i assume "a i \<noteq> None"
  then show "c i \<noteq> None" using ab bc unfolding store_le_def by blast
next
  fix i it' assume c: "c i = Some it'"
  from bc c consider "is_treat it' \<longrightarrow> adjusted_g it' = planned_g it'"
    | itb where "b i = Some itb" "is_treat it' = is_treat itb"
        "adjusted_g it' = adjusted_g itb" "planned_g it' = planned_g itb"
    unfolding store_le_def by blast
  then show "(is_treat it' \<longrightarrow> adjusted_g it' = planned_g it') \<or>
             (\<exists>it. a i = Some it \<and> is_treat it' = is_treat it \<and>
                   adjusted_g it' = adjusted_g it \<and> planned_g it' = planned_g it)"
  proof cases
    case 1
    then show ?thesis by simp
  next
    case 2
    from ab 2(1) consider "is_treat itb \<longrightarrow> adjusted_g itb = planned_g itb"
      | ita where "a i = Some ita" "is_treat itb = is_treat ita"
          "adjusted_g itb = adjusted_g ita" "planned_g itb = planned_g ita"
      unfolding store_le_def by blast
    then show ?thesis using 2 by cases auto
  qed
qed

lemma store_le_eq: "mi' = mi \<Longrightarrow> store_le mi mi'"
  by (simp add: store_le_refl)

lemma store_le_upd:
  "(is_treat it \<longrightarrow> adjusted_g it = planned_g it) \<Longrightarrow> store_le mi (mi(i \<mapsto> it))"
  by (auto simp: store_le_def)

lemma store_le_upd_same:
  "mi i = Some it \<Longrightarrow> is_treat it' = is_treat it \<Longrightarrow> adjusted_g it' = adjusted_g it \<Longrightarrow>
   planned_g it' = planned_g it \<Longrightarrow> store_le mi (mi(i \<mapsto> it'))"
  by (auto simp: store_le_def)

lemma store_le_treat: "store_le (meal_items s) (meal_items s') \<Longrightarrow> treat_inv s \<Longrightarrow> treat_inv s'"
  unfolding store_le_def treat_inv_def by metis

lemma store_le_dom: "store_le mi mi' \<Longrightarrow> mi i \<noteq> None \<Longrightarrow> mi' i \<noteq> None"
  unfolding store_le_def by blast

lemma store_le_set_adjusted: "store_le mi (set_adjusted sc ids mi)"
  unfolding store_le_def
  by (auto simp: set_adjusted_lookup rescale_def split: if_splits)

lemma pick_food_items: "meal_items (snd (pick_food mk role s)) = meal_items s"
  by (simp add: pick_food_def Let_def)

lemma ensure_day_items: "meal_items (snd (ensure_day dd s)) = meal_items s"
  by (simp add: ensure_day_def create_empty_meals_def Let_def split: option.splits)

lemma append_item_at_items: "meal_items (append_item_at dd i n s) = meal_items s"
  by (simp add: append_item_at_def split: option.splits)

lemma clear_day_items_items: "meal_items (clear_day_items dd s) = meal_items s"
  by (simp add: clear_day_items_def split: option.splits)

lemma recalc_store:
  "store_le (meal_items s) (meal_items (snd (recalc_adjusted_keep_targets dd s)))"
proof (cases "days s dd")
  case None
  then show ?thesis by (simp add: recalc_adjusted_keep_targets_def store_le_refl)
next
  case (Some d)
  show ?thesis
  proof (cases "map_of (meals_by_day s) dd")
    case None
    then show ?thesis using Some by (simp add: recalc_adjusted_keep_targets_def store_le_refl)
  next
    case (Some meals)
    from recalc_shape[OF \<open>days s dd = Some d\<close> Some] show ?thesis
      by (auto simp: store_le_set_adjusted)
  qed
qed

lemma generate_day_roles_store:
  "store_le (meal_items s) (meal_items (snd (generate_day_roles dd i m mt roles s)))"
proof (induction roles arbitrary: s)
  case Nil
  show ?case by (simp add: store_le_refl)
next
  case (Cons role roles)
  obtain r1 s1 where p: "pick_food (m_key m) role s = (r1, s1)" by force
  have m1: "meal_items s1 = meal_items s" using pick_food_items[of "m_key m" role s] p by simp
  show ?case
  proof (cases r1)
    case (Inl e)
    then show ?thesis using p m1 by (simp add: store_le_eq)
  next
    case (Inr f)
    note f = this
    show ?thesis
    proof (cases "grams_for_role f role mt")
      case (Inl e)
      then show ?thesis using p f m1 by (simp add: store_le_eq)
    next
      case (Inr grams)
      define it where "it = \<lparr>it_id = next_item_id s1, it_meal_id = m_id m, it_food = food_ref f,
                          it_role = role, planned_g = grams, adjusted_g = grams,
                          consumed_g = 0, is_confirmed = False, is_extra = False,
                          is_treat = False,
                          pantry_status = pantry_status_for_food (f_id f) s1\<rparr>"
      define s2 where "s2 = append_item_at dd i (next_item_id s1)
                           (s1\<lparr>meal_items := (meal_items s1)(next_item_id s1 \<mapsto> it)\<rparr>)"
      define s3 where "s3 = s2\<lparr>next_item_id := Suc (next_item_id s2)\<rparr>"
      obtain r4 s4 where e: "ensure_shopping_for_item (f_id f) s3 = (r4, s4)" by force
      have m3: "meal_items s3 = (meal_items s)(next_item_id s1 \<mapsto> it)"
        by (simp add: s3_def s2_def append_item_at_items m1)
      have m4: "meal_items s4 = meal_items s3"
        using ensure_shopping_for_item_frame[of "f_id f" s3] e by simp
      have le4: "store_le (meal_items s) (meal_items s4)"
        unfolding m4 m3 by (rule store_le_upd) (simp add: it_def)
      have unf: "generate_day_roles dd i m mt (role # roles) s =
          (case r4 of Inl e \<Rightarrow> (Inl e, s4) | Inr u \<Rightarrow> generate_day_roles dd i m mt roles s4)"
        using p f Inr e by (simp add: Let_def it_def s2_def s3_def)
      show ?thesis
      proof (cases r4)
        case (Inl e)
        then show ?thesis using unf le4 by simp
      next
        case (Inr u)
        then show ?thesis using unf store_le_trans[OF le4 Cons.IH[of s4]] by simp
      qed
    qed
  qed
qed

lemma generate_day_meals_store:
  "store_le (meal_items s) (meal_items (snd (generate_day_meals dd t ims s)))"
proof (induction ims arbitrary: s)
  case Nil
  show ?case by (simp add: store_le_refl)
next
  case (Cons im ims)
  obtain i m where im: "im = (i, m)" by force
  obtain r1 s1 where g: "generate_day_roles dd i m (meal_targets t (m_key m)) (roles_for (m_key m)) s = (r1, s1)"
    by force
  have le1: "store_le (meal_items s) (meal_items s1)"
    using generate_day_roles_store[of s dd i m "meal_targets t (m_key m)" "roles_for (m_key m)"] g by simp
  show ?case
  proof (cases r1)
    case (Inl e)
    then show ?thesis using im g le1 by simp
  next
    case (Inr u)
    then show ?thesis using im g store_le_trans[OF le1 Cons.IH[of s1]] by simp
  qed
qed

lemma generate_day_store:
  "store_le (meal_items s) (meal_items (snd (generate_day body s)))"
proof (cases body)
  case (GenerateDayBody x)
  then show ?thesis by (simp add: generate_day_def store_le_refl)
next
  case (Dict kv)
  show ?thesis
  proof (cases "map_of kv ''day_date''")
    case None
    then show ?thesis using Dict by (simp add: generate_day_def store_le_refl)
  next
    case (Some dd)
    show ?thesis
    proof (cases "dd = []")
      case True
      then show ?thesis using Dict Some by (simp add: generate_day_def store_le_refl)
    next
      case False
      obtain d s1 where e: "ensure_day dd s = (d, s1)" by force
      define s2 where "s2 = clear_day_items dd s1"
      have m2: "meal_items s2 = meal_items s"
        using ensure_day_items[of dd s] e by (simp add: s2_def clear_day_items_items)
      obtain r3 s3 where g: "generate_day_meals dd (day_target (is_training d))
                             (zip [0..<length (day_meals dd s2)] (day_meals dd s2)) s2 = (r3, s3)"
        by force
      have le3: "store_le (meal_items s) (meal_items s3)"
        using generate_day_meals_store[of s2 dd "day_target (is_training d)"
            "zip [0..<length (day_meals dd s2)] (day_meals dd s2)"] g m2 by simp
      have unf: "generate_day body s =
          (case r3 of Inl e \<Rightarrow> (Inl e, s3) | Inr u \<Rightarrow> recalc_adjusted_keep_targets dd s3)"
        using Dict Some False e g by (simp add: generate_day_def Let_def s2_def)
      show ?thesis
      proof (cases r3)
        case (Inl e)
        then show ?thesis using unf le3 by simp
      next
        case (Inr u)
        then show ?thesis using unf store_le_trans[OF le3 recalc_store[of s3 dd]] by simp
      qed
    qed
  qed
qed

lemma regenerate_meal_roles_store:
  "store_le (meal_items s) (meal_items (snd (regenerate_meal_roles mid mk mt roles s)))"
proof (induction roles arbitrary: s)
  case Nil
  show ?case by (simp add: store_le_refl)
next
  case (Cons role roles)
  obtain r1 s1 where p: "pick_food mk role s = (r1, s1)" by force
  have m1: "meal_items s1 = meal_items s" using pick_food_items[of mk role s] p by simp
  show ?case
  proof (cases r1)
    case (Inl e)
    then show ?thesis using p m1 by (simp add: store_le_eq)
  next
    case (Inr f)
    note f = this
    show ?thesis
    proof (cases "grams_for_role f role mt")
      case (Inl e)
      then show ?thesis using p f m1 by (simp add: store_le_eq)
    next
      case (Inr grams)
      define s2 where "s2 = s1\<lparr>next_item_id := Suc (next_item_id s1)\<rparr>"
      define it where "it = \<lparr>it_id = next_item_id s1, it_meal_id = mid, it_food = food_ref f,
                          it_role = compute_role f, planned_g = grams, adjusted_g = grams,
                          consumed_g = 0, is_confirmed = False, is_extra = False,
                          is_treat = False,
                          pantry_status = pantry_status_for_food (f_id f) s2\<rparr>"
      define s3 where "s3 = s2\<lparr>meal_items := (meal_items s2)(next_item_id s1 \<mapsto> it),
                            meals_by_day :=
                              update_meal mid (\<lambda>m. m\<lparr>m_items := m_items m @ [next_item_id s1]\<rparr>)
                                (meals_by_day s2)\<rparr>"
      obtain r4 s4 where e: "ensure_shopping_for_item (f_id f) s3 = (r4, s4)" by force
      have m3: "meal_items s3 = (meal_items s)(next_item_id s1 \<mapsto> it)"
        by (simp add: s3_def s2_def m1)
      have m4: "meal_items s4 = meal_items s3"
        using ensure_shopping_for_item_frame[of "f_id f" s3] e by simp
      have le4: "store_le (meal_items s) (meal_items s4)"
        unfolding m4 m3 by (rule store_le_upd) (simp add: it_def)
      have unf: "regenerate_meal_roles mid mk mt (role # roles) s =
          (case r4 of Inl e \<Rightarrow> (Inl e, s4) | Inr u \<Rightarrow> regenerate_meal_roles mid mk mt roles s4)"
        using p f Inr e by (simp add: Let_def it_def s2_def s3_def)
      show ?thesis
      proof (cases r4)
        case (Inl e)
        then show ?thesis using unf le4 by simp
      next
        case (Inr u)
        then show ?thesis using unf store_le_trans[OF le4 Cons.IH[of s4]] by simp
      qed
    qed
  qed
qed

lemma regenerate_meal_store:
  "store_le (meal_items s) (meal_items (snd (regenerate_meal mid s)))"
proof (cases "find_meal (meals_by_day s) mid")
  case None
  then show ?thesis by (simp add: regenerate_meal_def store_le_refl)
next
  case (Some a)
  obtain dd tm where a: "a = (dd, tm)" by force
  obtain d s1 where e: "ensure_day dd s = (d, s1)" by force
  define mk where "mk = m_key tm"
  define mt where "mt = meal_targets (day_target (is_training d)) mk"
  define s2 where "s2 = s1\<lparr>meals_by_day :=
                         update_meal mid (\<lambda>m. m\<lparr>m_items := []\<rparr>) (meals_by_day s1)\<rparr>"
  have m2: "meal_items s2 = meal_items s"
    using ensure_day_items[of dd s] e by (simp add: s2_def)
  obtain r3 s3 where g: "regenerate_meal_roles (m_id tm) mk mt (roles_for mk) s2 = (r3, s3)" by force
  have le3: "store_le (meal_items s) (meal_items s3)"
    using regenerate_meal_roles_store[of s2 "m_id tm" mk mt "roles_for mk"] g m2 by simp
  obtain r4 s4 where c: "recalc_adjusted_keep_targets dd s3 = (r4, s4)" by force
  have le4: "store_le (meal_items s) (meal_items s4)"
    using store_le_trans[OF le3 recalc_store[of s3 dd]] c by simp
  have unf: "regenerate_meal mid s =
      (case r3 of Inl e \<Rightarrow> (Inl e, s3)
       | Inr u \<Rightarrow> (case r4 of Inl e \<Rightarrow> (Inl e, s4)
                  | Inr u \<Rightarrow> (Inr (), s4\<lparr>learning_events := learning_events s4 @
                              [MealEvent ''regenerate_meal'' (m_id tm)]\<rparr>)))"
    using Some a e g c by (simp add: regenerate_meal_def Let_def s2_def mk_def mt_def
        split: sum.splits)
  show ?thesis using unf le3 le4 by (simp split: sum.splits)
qed

lemma swap_item_assign_store: "store_le (meal_items s) (meal_items (swap_item_assign i f s))"
  by (cases "meal_items s i") (simp_all add: swap_item_assign_def store_le_refl store_le_upd)

lemma swap_item_store:
  "store_le (meal_items s) (meal_items (snd (swap_item i role s)))"
proof (cases "meal_items s i")
  case None
  then show ?thesis by (simp add: swap_item_def store_le_refl)
next
  case (Some it)
  show ?thesis
  proof (cases "find_meal (meals_by_day s) (it_meal_id it)")
    case None
    then show ?thesis using Some by (simp add: swap_item_def store_le_refl)
  next
    case (Some a)
    obtain dd tm where a: "a = (dd, tm)" by force
    obtain r1 s1 where p: "pick_food (m_key tm) role s = (r1, s1)" by force
    have m1: "meal_items s1 = meal_items s" using pick_food_items[of "m_key tm" role s] p by simp
    show ?thesis
    proof (cases r1)
      case (Inl e)
      then show ?thesis using \<open>meal_items s i = Some it\<close> Some a p m1
        by (simp add: swap_item_def store_le_eq)
    next
      case (Inr f)
      define s2 where "s2 = swap_item_assign i f s1"
      have le2: "store_le (meal_items s) (meal_items s2)"
        using swap_item_assign_store[of s1 i f] m1 by (simp add: s2_def)
      obtain r3 s3 where e: "ensure_shopping_for_item (f_id f) s2 = (r3, s3)" by force
      have m3: "meal_items s3 = meal_items s2"
        using ensure_shopping_for_item_frame[of "f_id f" s2] e by simp
      obtain r4 s4 where c: "recalc_adjusted_keep_targets dd s3 = (r4, s4)" by force
      have le4: "store_le (meal_items s) (meal_items s4)"
        using store_le_trans[OF le2] recalc_store[of s3 dd] c m3 by simp
      have unf: "swap_item i role s =
        (case r3 of Inl e \<Rightarrow> (Inl e, s3)
         | Inr u \<Rightarrow> (case r4 of Inl e \<Rightarrow> (Inl e, s4)
                  | Inr u \<Rightarrow> (Inr (), s4\<lparr>learning_events := learning_events s4 @
                                    [ItemEvent ''swap_item'' (it_id it)]\<rparr>)))"
        using \<open>meal_items s i = Some it\<close> Some a p Inr e c
        by (simp add: swap_item_def s2_def split: sum.splits)
      show ?thesis using unf le2 m3 le4 by (simp split: sum.splits)
    qed
  qed
qed

lemma add_extra_store:
  "store_le (meal_items s) (meal_items (snd (add_extra mid fid grams as_treat s)))"
proof (cases "find_meal (meals_by_day s) mid")
  case None
  then show ?thesis by (simp add: add_extra_def store_le_refl)
next
  case (Some a)
  obtain dd tm where a: "a = (dd, tm)" by force
  show ?thesis
  proof (cases "get_food fid s")
    case (Inl e)
    then show ?thesis using Some a by (simp add: add_extra_def store_le_refl)
  next
    case (Inr f)
    define s1 where "s1 = s\<lparr>next_item_id := Suc (next_item_id s)\<rparr>"
    define it where "it = \<lparr>it_id = next_item_id s, it_meal_id = m_id tm, it_food = food_ref f,
                          it_role = compute_role f, planned_g = grams, adjusted_g = grams,
                          consumed_g = (if as_treat then grams else 0),
                          is_confirmed = as_treat, is_extra = True, is_treat = as_treat,
                          pantry_status = pantry_status_for_food (f_id f) s1\<rparr>"
    define s2 where "s2 = s1\<lparr>meal_items := (meal_items s1)(next_item_id s \<mapsto> it),
                            meals_by_day :=
                              update_meal mid (\<lambda>m. m\<lparr>m_items := m_items m @ [next_item_id s]\<rparr>)
                                (meals_by_day s1)\<rparr>"
    have le2: "store_le (meal_items s) (meal_items s2)"
      by (simp add: s2_def s1_def store_le_upd it_def)
    obtain r3 s3 where e: "ensure_shopping_for_item (f_id f) s2 = (r3, s3)" by force
    have m3: "meal_items s3 = meal_items s2"
      using ensure_shopping_for_item_frame[of "f_id f" s2] e by simp
    obtain r4 s4 where c: "recalc_adjusted_keep_targets dd s3 = (r4, s4)" by force
    have le4: "store_le (meal_items s) (meal_items s4)"
      using store_le_trans[OF le2] recalc_store[of s3 dd] c m3 by simp
    have unf: "add_extra mid fid grams as_treat s =
        (case r3 of Inl e \<Rightarrow> (Inl e, s3)
         | Inr u \<Rightarrow> (case r4 of Inl e \<Rightarrow> (Inl e, s4)
                  | Inr u \<Rightarrow> (Inr (), s4\<lparr>learning_events := learning_events s4 @
                                   [ItemEvent ''add_extra'' (next_item_id s)]\<rparr>)))"
      using Some a Inr e c by (simp add: add_extra_def Let_def s1_def it_def s2_def split: sum.splits)
    show ?thesis using unf le2 m3 le4 by (simp split: sum.splits)
  qed
qed

lemma set_training_store:
  "store_le (meal_items s) (meal_items (snd (set_training dd b s)))"
proof -
  obtain d s1 where e: "ensure_day dd s = (d, s1)" by force
  have m1: "meal_items s1 = meal_items s" using ensure_day_items[of dd s] e by simp
  show ?thesis
    using recalc_store[of "s1\<lparr>days := (days s1)(dd \<mapsto> d\<lparr>is_training := b\<rparr>)\<rparr>" dd] e m1
    by (simp add: set_training_def)
qed

lemma confirm_item_store:
  "store_le (meal_items s) (meal_items (snd (confirm_item i g c s)))"
proof (cases "meal_items s i")
  case None
  then show ?thesis by (simp add: confirm_item_def store_le_refl)
next
  case (Some it)
  define s1 where "s1 = s\<lparr>meal_items := (meal_items s)(i \<mapsto>
                         it\<lparr>consumed_g := g, is_confirmed := c\<rparr>)\<rparr>"
  have le1: "store_le (meal_items s) (meal_items s1)"
    using Some by (simp add: s1_def store_le_upd_same)
  show ?thesis
  proof (cases "find_day (meals_by_day s1) (it_meal_id it)")
    case None
    then show ?thesis using Some le1 by (simp add: confirm_item_def Let_def s1_def)
  next
    case (Some dd)
    obtain r2 s2 where r: "recompute_day dd s1 = (r2, s2)" by force
    have m2: "meal_items s2 = meal_items s1" using recompute_day_items[of dd s1] r by simp
    have "meal_items (snd (confirm_item i g c s)) = meal_items s1"
      using \<open>meal_items s i = Some it\<close> Some r m2
      by (simp add: confirm_item_def Let_def s1_def split: sum.splits)
    then show ?thesis using le1 by simp
  qed
qed

lemma reject_day_items: "meal_items (snd (reject_day dd s)) = meal_items (snd (ensure_day dd s))"
  by (simp add: reject_day_def generate_day_def split: prod.splits)

lemma get_day_meals_items: "meal_items (snd (get_day_meals dd s)) = meal_items s"
  using ensure_day_items[of dd s] by (cases "ensure_day dd s") (simp add: get_day_meals_def)

lemma accept_day_items: "meal_items (snd (accept_day dd s)) = meal_items s"
  using ensure_day_items[of dd s] by (cases "ensure_day dd s") (simp add: accept_day_def)

lemma step_store: "store_le (meal_items s) (meal_items (step x s))"
proof (cases x)
  case (GetDay dd)
  then show ?thesis by (simp add: get_day_def ensure_day_items store_le_refl)
next
  case (GetDayMeals dd)
  then show ?thesis by (simp add: get_day_meals_items store_le_refl)
next
  case (SetTraining dd b)
  then show ?thesis by (simp add: set_training_store)
next
  case (CustomFoodManual body)
  then show ?thesis by (simp add: custom_food_manual_def Let_def store_le_refl)
next
  case (GenerateDay body)
  then show ?thesis by (simp add: generate_day_store)
next
  case (AcceptDay dd)
  then show ?thesis by (simp add: accept_day_items store_le_refl)
next
  case (RejectDay dd)
  then show ?thesis by (simp add: reject_day_items ensure_day_items store_le_refl)
next
  case (RegenerateMeal mid)
  then show ?thesis by (simp add: regenerate_meal_store)
next
  case (SwapItem i role)
  then show ?thesis by (simp add: swap_item_store)
next
  case (AddExtra mid fid grams as_treat)
  then show ?thesis by (simp add: add_extra_store)
next
  case (ConfirmItem i g c)
  then show ?thesis by (simp add: confirm_item_store)
next
  case (Rebalance dd)
  then show ?thesis by (simp add: recalc_store)
qed

lemma run_store: "store_le (meal_items s) (meal_items (run ops s))"
proof (induction ops arbitrary: s)
  case Nil
  show ?case by (simp add: store_le_refl)
next
  case (Cons x ops)
  show ?case using store_le_trans[OF step_store[of s x] Cons.IH[of "step x s"]] by simp
qed

lemma treat_inv_init: "treat_inv (init df r)"
  by (simp add: treat_inv_def init_def)

text \<open>
  C4. Treat invariance holds in a fresh process and is kept by every handler and by the
  rebalancer alone, whether the call returns or raises: after any sequence of calls of
  \<open>get_day\<close>, \<open>get_day_meals\<close>, \<open>set_training\<close>, \<open>custom_food_manual\<close>, \<open>generate_day\<close>,
  \<open>accept_day\<close>, \<open>reject_day\<close>, \<open>regenerate_meal\<close>, \<open>swap_item\<close>, \<open>add_extra\<close>,
  \<open>confirm_item\<close> and \<open>recalc_adjusted_keep_targets\<close>, every item with \<open>is_treat\<close> has
  \<open>adjusted_g = planned_g\<close>.
\<close>

theorem treat_invariance:
  assumes "treat_inv s"
  shows "treat_inv (run ops s)"
  using run_store[of s ops] assms by (rule store_le_treat)


theorem treat_invariance_witness:
  "treat_inv ex_fresh \<and>
   map_option is_treat (meal_items ex_run 1) = Some True \<and>
   map_option planned_g (meal_items ex_run 1) = Some 20000 \<and>
   map_option adjusted_g (meal_items ex_run 1) = Some 20000 \<and>
   map_option adjusted_g (meal_items ex_run 2) = Some 9999"
proof -
  have i: "treat_inv ex_fresh" by (simp add: ex_fresh_def treat_inv_init)
  have inv: "treat_inv ex_run" unfolding ex_run_def using i by (rule treat_invariance)
  have a: "map_option is_treat (meal_items ex_run 1) = Some True" by code_simp
  have b: "map_option planned_g (meal_items ex_run 1) = Some 20000" by code_simp
  have c: "map_option adjusted_g (meal_items ex_run 2) = Some 9999" by code_simp
  from a obtain it where it: "meal_items ex_run 1 = Some it" "is_treat it" by auto
  with inv have "adjusted_g it = planned_g it" unfolding treat_inv_def by blast
  with it b have "map_option adjusted_g (meal_items ex_run 1) = Some 20000" by simp
  with i a b c show ?thesis by simp
qed

section \<open>Removed items at the public interface\<close>

lemma ensure_shopping_for_item_error:
  "fst (ensure_shopping_for_item fid s) = Inl e \<Longrightarrow> e = HTTPException 404 (''Food not found: '' @ fid)"
  by (auto simp: ensure_shopping_for_item_def get_food_def split: if_splits option.splits sum.splits)

lemma ensure_shopping_all_error:
  "fst (ensure_shopping_all fids s) = Inl e \<Longrightarrow> \<exists>x. e = HTTPException 404 (''Food not found: '' @ x)"
proof (induction fids arbitrary: s)
  case Nil
  then show ?case by simp
next
  case (Cons fid fids)
  obtain r s1 where p: "ensure_shopping_for_item fid s = (r, s1)" by force
  show ?case
  proof (cases r)
    case (Inl e')
    then have "e' = e" using Cons.prems p by simp
    then show ?thesis using ensure_shopping_for_item_error[of fid s e] p Inl by auto
  next
    case (Inr u)
    then show ?thesis using Cons.prems p Cons.IH[of s1] by simp
  qed
qed

lemma recompute_day_error: "fst (recompute_day dd s) = Inl e \<Longrightarrow> e = KeyError dd"
  by (auto simp: recompute_day_def split: option.splits)

lemma recalc_error:
  assumes "fst (recalc_adjusted_keep_targets dd s) = Inl e"
  shows "e = KeyError dd \<or> (\<exists>x. e = HTTPException 404 (''Food not found: '' @ x))"
proof (cases "days s dd")
  case None
  then show ?thesis using assms by (simp add: recalc_adjusted_keep_targets_def)
next
  case (Some d)
  show ?thesis
  proof (cases "map_of (meals_by_day s) dd")
    case None
    then show ?thesis using assms Some by (simp add: recalc_adjusted_keep_targets_def)
  next
    case (Some meals)
    define ids where "ids = concat (map m_items meals)"
    define sc where "sc = day_scale (is_training d) (deref s ids)"
    define s1 where "s1 = s\<lparr>meal_items := set_adjusted sc ids (meal_items s)\<rparr>"
    define fids where "fids = map (\<lambda>it. f_id (it_food it)) (deref s1 ids)"
    obtain r s2 where e: "ensure_shopping_all fids s1 = (r, s2)" by force
    have unf: "recalc_adjusted_keep_targets dd s =
        (case r of Inl e \<Rightarrow> (Inl e, s2) | Inr u \<Rightarrow> recompute_day dd s2)"
      using \<open>days s dd = Some d\<close> Some e
      by (simp add: recalc_adjusted_keep_targets_def Let_def ids_def sc_def s1_def fids_def
          split: sum.splits)
    show ?thesis
    proof (cases r)
      case (Inl e')
      then have "e' = e" using unf assms by simp
      then show ?thesis using ensure_shopping_all_error[of fids s1 e] e Inl by simp
    next
      case (Inr u)
      then show ?thesis using unf assms recompute_day_error[of dd s2 e] by simp
    qed
  qed
qed

lemma pick_food_error: "fst (pick_food mk role s) = Inl e \<Longrightarrow> e = IndexError"
  by (auto simp: pick_food_def Let_def split: if_splits)

lemma swap_item_error:
  assumes it: "meal_items s i = Some it"
    and err: "fst (swap_item i role s) = Inl e"
  shows "(find_meal (meals_by_day s) (it_meal_id it) = None \<and>
            e = HTTPException 404 ''Meal no encontrado'') \<or>
         e = IndexError \<or> (\<exists>x. e = KeyError x) \<or>
         (\<exists>x. e = HTTPException 404 (''Food not found: '' @ x))"
proof (cases "find_meal (meals_by_day s) (it_meal_id it)")
  case None
  then show ?thesis using it err by (simp add: swap_item_def)
next
  case (Some a)
  obtain dd tm where a: "a = (dd, tm)" by force
  obtain r1 s1 where p: "pick_food (m_key tm) role s = (r1, s1)" by force
  show ?thesis
  proof (cases r1)
    case (Inl e1)
    then have "e = e1" using it Some a p err by (simp add: swap_item_def)
    then show ?thesis using pick_food_error[of "m_key tm" role s e1] p Inl by simp
  next
    case (Inr f)
    define s2 where "s2 = swap_item_assign i f s1"
    obtain r3 s3 where e3: "ensure_shopping_for_item (f_id f) s2 = (r3, s3)" by force
    obtain r4 s4 where c: "recalc_adjusted_keep_targets dd s3 = (r4, s4)" by force
    have unf: "swap_item i role s =
        (case r3 of Inl e \<Rightarrow> (Inl e, s3)
         | Inr u \<Rightarrow> (case r4 of Inl e \<Rightarrow> (Inl e, s4)
                  | Inr u \<Rightarrow> (Inr (), s4\<lparr>learning_events := learning_events s4 @
                                    [ItemEvent ''swap_item'' (it_id it)]\<rparr>)))"
      using it Some a p Inr e3 c by (simp add: swap_item_def s2_def split: sum.splits)
    show ?thesis
    proof (cases r3)
      case (Inl e')
      then have "e' = e" using unf err by simp
      then show ?thesis using ensure_shopping_for_item_error[of "f_id f" s2 e] e3 Inl by auto
    next
      case (Inr u)
      note r3 = this
      show ?thesis
      proof (cases r4)
        case (Inl e')
        then have "e' = e" using unf err r3 by simp
        then show ?thesis using recalc_error[of dd s3 e] c Inl by auto
      next
        case (Inr u')
        then show ?thesis using unf err r3 by simp
      qed
    qed
  qed
qed

lemma deref_detached:
  "i \<notin> set ids \<Longrightarrow> deref (s\<lparr>meal_items := (meal_items s)(i \<mapsto> x)\<rparr>) ids = deref s ids"
  by (induction ids) (auto simp: deref_def List.map_filter_simps split: option.splits)

lemma recompute_day_detached:
  assumes d: "days s dd = Some d" and m: "map_of (meals_by_day s) dd = Some meals"
    and det: "list_all (\<lambda>m. i \<notin> set (m_items m)) meals"
  shows "recompute_day dd (s\<lparr>meal_items := (meal_items s)(i \<mapsto> x)\<rparr>) =
         (Inr (), (snd (recompute_day dd s))\<lparr>meal_items := (meal_items s)(i \<mapsto> x)\<rparr>)"
proof -
  let ?s1 = "s\<lparr>meal_items := (meal_items s)(i \<mapsto> x)\<rparr>"
  have eq: "planned_m ?s1 m = planned_m s m \<and> adjusted_m ?s1 m = adjusted_m s m \<and>
            consumed_m ?s1 m = consumed_m s m" if "m \<in> set meals" for m
  proof -
    have "i \<notin> set (m_items m)" using det that by (simp add: list_all_iff)
    then show ?thesis by (simp add: planned_m_def adjusted_m_def consumed_m_def deref_detached)
  qed
  have f1: "foldl (\<lambda>acc m. add_macros acc (planned_m ?s1 m)) z meals =
            foldl (\<lambda>acc m. add_macros acc (planned_m s m)) z meals" for z
    by (rule foldl_cong) (simp_all add: eq)
  have f2: "foldl (\<lambda>acc m. add_macros acc (adjusted_m ?s1 m)) z meals =
            foldl (\<lambda>acc m. add_macros acc (adjusted_m s m)) z meals" for z
    by (rule foldl_cong) (simp_all add: eq)
  have f3: "foldl (\<lambda>acc m. add_macros acc (consumed_m ?s1 m)) z meals =
            foldl (\<lambda>acc m. add_macros acc (consumed_m s m)) z meals" for z
    by (rule foldl_cong) (simp_all add: eq)
  have f4: "map (\<lambda>m. m\<lparr>planned_macros := planned_m ?s1 m, adjusted_macros := adjusted_m ?s1 m\<rparr>) meals =
            map (\<lambda>m. m\<lparr>planned_macros := planned_m s m, adjusted_macros := adjusted_m s m\<rparr>) meals"
    by (rule map_cong) (simp_all add: eq)
  show ?thesis
    using d m by (simp add: recompute_day_def f1 f2 f3 f4)
qed

lemma find_in_set: "find P xs = Some x \<Longrightarrow> x \<in> set xs"
  by (induction xs) (auto split: if_splits)

lemma find_day_map_of:
  assumes "find_day mbd mid = Some dd"
  shows "map_of mbd dd \<noteq> None"
proof -
  from assms obtain ms where
    "find (\<lambda>(dd, ms). find (\<lambda>m. m_id m = mid) ms \<noteq> None \<and> dd \<noteq> []) mbd = Some (dd, ms)"
    by (auto simp: find_day_def)
  then have "(dd, ms) \<in> set mbd" by (rule find_in_set)
  then have "dd \<in> fst ` set mbd" by force
  then show ?thesis by (simp add: map_of_eq_None_iff)
qed

lemma confirm_item_error:
  assumes it: "meal_items s i = Some it" and err: "fst (confirm_item i g c s) = Inl e"
  shows "e \<noteq> HTTPException 404 ''Item no encontrado''"
proof (cases "find_day (meals_by_day s) (it_meal_id it)")
  case None
  then show ?thesis using it err by (auto simp: confirm_item_def Let_def)
next
  case (Some dd)
  define s1 where "s1 = s\<lparr>meal_items := (meal_items s)(i \<mapsto>
                         it\<lparr>consumed_g := g, is_confirmed := c\<rparr>)\<rparr>"
  obtain r2 s2 where r: "recompute_day dd s1 = (r2, s2)" by force
  have unf: "confirm_item i g c s =
      (case r2 of Inl e \<Rightarrow> (Inl e, s2)
       | Inr u \<Rightarrow> (Inr (), s2\<lparr>learning_events := learning_events s2 @
                              [ItemEvent ''confirm_item'' (it_id it)]\<rparr>))"
    using it Some r by (simp add: confirm_item_def Let_def s1_def split: sum.splits)
  show ?thesis
  proof (cases r2)
    case (Inl e')
    then have "e' = e" using unf err by simp
    then show ?thesis using recompute_day_error[of dd s1 e] r Inl by auto
  next
    case (Inr u)
    then show ?thesis using unf err by simp
  qed
qed

lemma detached_meals:
  "detached i s \<Longrightarrow> map_of (meals_by_day s) dd = Some meals \<Longrightarrow>
   list_all (\<lambda>m. i \<notin> set (m_items m)) meals"
  by (auto simp: detached_def list_all_iff dest!: map_of_SomeD)

lemma confirm_item_detached:
  assumes it: "meal_items s i = Some it" and det: "detached i s"
    and fd: "find_day (meals_by_day s) (it_meal_id it) = Some dd" and d: "days s dd = Some d"
  shows "confirm_item i g c s =
     (Inr (),
      (snd (recompute_day dd s))\<lparr>meal_items := (meal_items s)(i \<mapsto>
           it\<lparr>consumed_g := g, is_confirmed := c\<rparr>),
         learning_events := learning_events s @ [ItemEvent ''confirm_item'' (it_id it)]\<rparr>)"
proof -
  obtain meals where m: "map_of (meals_by_day s) dd = Some meals"
    using find_day_map_of[OF fd] by blast
  have ev: "learning_events (snd (recompute_day dd s)) = learning_events s"
    using d m by (simp add: recompute_day_def)
  show ?thesis
    using it fd ev recompute_day_detached[OF d m detached_meals[OF det m], of "it\<lparr>consumed_g := g, is_confirmed := c\<rparr>"]
    by (simp add: confirm_item_def Let_def)
qed

text \<open>
  C9, as the code has it. An item object stays in \<open>meal_items\<close> when \<open>generate_day\<close> or
  \<open>regenerate_meal\<close> clears the list that held it. For an id of the item table,
  \<open>confirm_item\<close> and \<open>swap_item\<close> never raise the 404 of an unknown item, and \<open>swap_item\<close>
  never raises the 404 of an unknown meal while the item's meal exists. If no meal lists
  the id and the item's meal belongs to a day of the ledger, \<open>confirm_item\<close> returns
  normally and the day and meal tables it leaves are those of a plain \<open>recompute_day\<close>
  of the state before: the confirmed item adds nothing to any consumed vector.
\<close>

theorem removed_item_ids:
  assumes "meal_items s i = Some it"
  shows "meal_items (snd (generate_day b s)) i \<noteq> None \<and>
         meal_items (snd (regenerate_meal mid s)) i \<noteq> None \<and>
         fst (confirm_item i g c s) \<noteq> Inl (HTTPException 404 ''Item no encontrado'') \<and>
         fst (swap_item i role s) \<noteq> Inl (HTTPException 404 ''Item no encontrado'') \<and>
         (find_meal (meals_by_day s) (it_meal_id it) \<noteq> None \<longrightarrow>
            fst (swap_item i role s) \<noteq> Inl (HTTPException 404 ''Meal no encontrado'')) \<and>
         (detached i s \<and> find_day (meals_by_day s) (it_meal_id it) = Some dd \<and> days s dd = Some d \<longrightarrow>
            (\<exists>s'. confirm_item i g c s = (Inr (), s') \<and>
                  days s' = days (snd (recompute_day dd s)) \<and>
                  meals_by_day s' = meals_by_day (snd (recompute_day dd s))))"
proof (intro conjI impI)
  show "meal_items (snd (generate_day b s)) i \<noteq> None"
    using store_le_dom[OF generate_day_store[of s b], of i] assms by simp
  show "meal_items (snd (regenerate_meal mid s)) i \<noteq> None"
    using store_le_dom[OF regenerate_meal_store[of s mid], of i] assms by simp
  show "fst (confirm_item i g c s) \<noteq> Inl (HTTPException 404 ''Item no encontrado'')"
    using confirm_item_error[OF assms, of g c] by blast
  show "fst (swap_item i role s) \<noteq> Inl (HTTPException 404 ''Item no encontrado'')"
    using swap_item_error[OF assms, of role "HTTPException 404 ''Item no encontrado''"] by auto
next
  assume "find_meal (meals_by_day s) (it_meal_id it) \<noteq> None"
  then show "fst (swap_item i role s) \<noteq> Inl (HTTPException 404 ''Meal no encontrado'')"
    using swap_item_error[OF assms, of role "HTTPException 404 ''Meal no encontrado''"] by auto
next
  assume "detached i s \<and> find_day (meals_by_day s) (it_meal_id it) = Some dd \<and> days s dd = Some d"
  then show "\<exists>s'. confirm_item i g c s = (Inr (), s') \<and>
                  days s' = days (snd (recompute_day dd s)) \<and>
                  meals_by_day s' = meals_by_day (snd (recompute_day dd s))"
    using confirm_item_detached[OF assms, of dd d g c] by simp
qed


theorem removed_item_ids_witness:
  "meal_items ex_gen2 1 \<noteq> None \<and>
   map m_items (day_meals ''2024-01-01'' ex_gen1) = [[1], [], [], [], [], [], []] \<and>
   map m_items (day_meals ''2024-01-01'' ex_gen2) = [[2], [], [], [], [], [], []] \<and>
   detached 1 ex_gen2 \<and>
   map_option (\<lambda>it. find_day (meals_by_day ex_gen2) (it_meal_id it)) (meal_items ex_gen2 1)
     = Some (Some ''2024-01-01'') \<and>
   map_option (\<lambda>it. find_meal (meals_by_day ex_gen2) (it_meal_id it) \<noteq> None) (meal_items ex_gen2 1)
     = Some True \<and>
   days ex_gen2 ''2024-01-01'' \<noteq> None \<and>
   meal_items (snd (generate_day (Dict [(''day_date'', ''2024-01-01'')]) ex_gen2)) 1 \<noteq> None \<and>
   fst (confirm_item 1 150 True ex_gen2) = Inr () \<and>
   days (snd (confirm_item 1 150 True ex_gen2)) = days (snd (recompute_day ''2024-01-01'' ex_gen2)) \<and>
   fst (swap_item 1 ''proteina'' ex_gen2) \<noteq> Inl (HTTPException 404 ''Item no encontrado'') \<and>
   fst (swap_item 1 ''proteina'' ex_gen2) \<noteq> Inl (HTTPException 404 ''Meal no encontrado'')"
proof -
  have a: "meal_items ex_gen2 1 \<noteq> None" by code_simp
  have l1: "map m_items (day_meals ''2024-01-01'' ex_gen1) = [[1], [], [], [], [], [], []]"
    by code_simp
  have l2: "map m_items (day_meals ''2024-01-01'' ex_gen2) = [[2], [], [], [], [], [], []]"
    by code_simp
  have det: "detached 1 ex_gen2" by code_simp
  have fd: "map_option (\<lambda>it. find_day (meals_by_day ex_gen2) (it_meal_id it)) (meal_items ex_gen2 1)
     = Some (Some ''2024-01-01'')" by code_simp
  have fm: "map_option (\<lambda>it. find_meal (meals_by_day ex_gen2) (it_meal_id it) \<noteq> None)
     (meal_items ex_gen2 1) = Some True" by code_simp
  have dy: "days ex_gen2 ''2024-01-01'' \<noteq> None" by code_simp
  from a obtain it where it: "meal_items ex_gen2 1 = Some it" by blast
  from dy obtain d where d: "days ex_gen2 ''2024-01-01'' = Some d" by blast
  have fd': "find_day (meals_by_day ex_gen2) (it_meal_id it) = Some ''2024-01-01''"
    using fd it by simp
  have fm': "find_meal (meals_by_day ex_gen2) (it_meal_id it) \<noteq> None"
    using fm it by simp
  note th = removed_item_ids[OF it, of "Dict [(''day_date'', ''2024-01-01'')]" 1 150 True
      "''proteina''" "''2024-01-01''" d]
  from th det fd' d obtain s' where
    "confirm_item 1 150 True ex_gen2 = (Inr (), s')"
    "days s' = days (snd (recompute_day ''2024-01-01'' ex_gen2))" by blast
  then have c: "fst (confirm_item 1 150 True ex_gen2) = Inr ()"
    "days (snd (confirm_item 1 150 True ex_gen2)) = days (snd (recompute_day ''2024-01-01'' ex_gen2))"
    by simp_all
  from th fm' have s: "meal_items (snd (generate_day (Dict [(''day_date'', ''2024-01-01'')]) ex_gen2)) 1 \<noteq> None"
    "fst (swap_item 1 ''proteina'' ex_gen2) \<noteq> Inl (HTTPException 404 ''Item no encontrado'')"
    "fst (swap_item 1 ''proteina'' ex_gen2) \<noteq> Inl (HTTPException 404 ''Meal no encontrado'')"
    by blast+
  show ?thesis using a l1 l2 det fd fm dy c s by simp
qed

text \<open>
  The claim as written fails for \<open>swap_item\<close>. In a fresh process over the one-row catalog
  the first \<open>generate_day\<close> stores item 1 in the breakfast list and raises in the shopping
  deriver, the second one clears that list and stores item 2; \<open>swap_item\<close> on the removed
  id 1 passes the item and meal lookups and ends with the 404 of an unknown food.
\<close>

theorem swap_removed_item_food_not_found:
  "fst (generate_day (Dict [(''day_date'', ''2024-01-01'')]) ex_fresh)
     = Inl (HTTPException 404 ''Food not found: 1'') \<and>
   map m_items (day_meals ''2024-01-01'' ex_gen1) = [[1], [], [], [], [], [], []] \<and>
   map m_items (day_meals ''2024-01-01'' ex_gen2) = [[2], [], [], [], [], [], []] \<and>
   meal_items ex_gen2 1 \<noteq> None \<and>
   fst (swap_item 1 ''proteina'' ex_gen2) = Inl (HTTPException 404 ''Food not found: 1'')"
  by code_simp

end
